theory Spec2Isabelle
  imports Main
begin

section \<open>Data of the pipeline orchestration (prosoda/project.py)\<close>

text \<open>
  The module \<^verbatim>\<open>prosoda/project.py\<close> drives the analysis pipeline: it reads the
  configuration, registers the release ranges in the database, submits the jobs of every
  range to the batch system \<^verbatim>\<open>BatchJob\<close>, waits for them and runs the two global stages.
  All it does is call collaborators, so the model is a state-passing program whose state
  holds the batch pool and the sequence of calls made so far.
\<close>

type_synonym handle = nat

record mailinglist =
  ml_name :: string
  ml_type :: string

text \<open>The keys of the configuration mapping that the module reads.\<close>

record configuration =
  conf_project :: string
  conf_tagging :: string
  conf_revisions :: "string list"
  conf_rcs :: "string option list"
  conf_repo :: string
  conf_mailinglists :: "mailinglist list"

text \<open>The database manager, as the queries the module sends to it.\<close>

record dbmanager =
  getProjectID :: "string \<Rightarrow> string \<Rightarrow> int"
  getRevisionID :: "int \<Rightarrow> string \<Rightarrow> int"
  getReleaseRangeID :: "int \<Rightarrow> int \<times> int \<Rightarrow> int"
  get_release_range :: "int \<Rightarrow> int \<Rightarrow> string \<times> string \<times> string option"

text \<open>
  A unit of work handed to \<^verbatim>\<open>BatchJob.add\<close>: the callable together with its positional
  arguments.
\<close>

datatype work =
    DoProjectAnalysis configuration string string "string option" string string bool bool
  | Loginfo string
  | ExecuteCommand "string list"
  | LayoutGraph string
  | GenerateReport string string string

datatype kwval = KBool bool | KStr string

type_synonym kwargs = "(string \<times> kwval) list"

datatype error = InvalidDependency | JobFailure | ConfigurationError | PoolExhausted

datatype job_state = Pending | Ready | Running | Succeeded | Failed | Skipped

datatype outcome = All_Succeeded | Partial_Failure "handle list" "handle list"

record job =
  work :: work
  kwargs :: "kwargs option"
  dependencies :: "handle list"
  state :: job_state

text \<open>The batch pool: the handle of a job is its position in the list of submitted jobs.\<close>

record batch_pool =
  parallel_jobs :: "int option"
  job_list :: "job list"

text \<open>The calls the module makes to its collaborators, in the order it makes them.\<close>

datatype event =
    SetParallelJobs int
  | Check4ctags
  | LogInfo string
  | Add handle work "kwargs option" "handle list"
  | AddRejected work "kwargs option" "handle list"
  | Glob string
  | Join "handle list" outcome
  | DispatchTs string configuration
  | CallExecuteCommand "string list" bool string

record run_state =
  pool :: batch_pool
  trace :: "event list"

text \<open>
  The collaborators whose code is outside the module: configuration loading, the
  database, the package resource lookup, the path functions of the operating system, the
  file system as \<^verbatim>\<open>glob\<close> sees it, the exit status of a subprocess and the outcome of a
  job's work. They are parameters of the model and are taken to return normally.
\<close>

record env =
  Configuration_load :: "string \<Rightarrow> string \<Rightarrow> configuration"
  DBManager :: "configuration \<Rightarrow> dbmanager"
  update_release_timeline ::
    "dbmanager \<Rightarrow> string \<Rightarrow> string \<Rightarrow> string list \<Rightarrow> string option list \<Rightarrow> bool
      \<Rightarrow> int list \<times> dbmanager"
  resource_filename :: "string \<Rightarrow> string \<Rightarrow> string"
  pathjoin :: "string list \<Rightarrow> string"
  pathsplit :: "string \<Rightarrow> string \<times> string"
  glob :: "string \<Rightarrow> string list"
  exit_status :: "string list \<Rightarrow> string \<Rightarrow> int"
  work_succeeds :: "work \<Rightarrow> bool"

section \<open>Python's string conversions\<close>

definition digit_char :: "nat \<Rightarrow> char" where
  "digit_char d = ''0123456789'' ! d"

fun str_nat :: "nat \<Rightarrow> string" where
  "str_nat n = (if n < 10 then [digit_char n] else str_nat (n div 10) @ [digit_char (n mod 10)])"

declare str_nat.simps [simp del]

definition str_int :: "int \<Rightarrow> string" where
  "str_int i = (if i < 0 then ''-'' @ str_nat (nat (- i)) else str_nat (nat i))"

definition quote :: string where
  "quote = [CHR 0x27]"

section \<open>The batch system\<close>

text \<open>
  Modelled from the spec: the class \<^verbatim>\<open>BatchJob\<close> of \<^verbatim>\<open>prosoda/util.py\<close> is not among the
  sources. The spec's configure operation takes a positive parallelism and fails with
  ConfigurationError once dispatch has started.
\<close>

definition dispatch_started :: "batch_pool \<Rightarrow> bool" where
  "dispatch_started p = list_ex (\<lambda>j. state j \<noteq> Pending) (job_list p)"

definition BatchJob_set_parallel_jobs :: "int \<Rightarrow> batch_pool \<Rightarrow> error + batch_pool" where
  "BatchJob_set_parallel_jobs n p =
     (if n \<le> 0 \<or> dispatch_started p then Inl ConfigurationError
      else Inr (p\<lparr>parallel_jobs := Some n\<rparr>))"

text \<open>
  Modelled from the spec: submit registers a job and returns its handle, the next id in
  submission order; it fails with InvalidDependency if a dependency handle is unknown. The
  new job is Pending.
\<close>

definition BatchJob_add ::
  "work \<Rightarrow> kwargs option \<Rightarrow> handle list \<Rightarrow> batch_pool \<Rightarrow> error + handle \<times> batch_pool" where
  "BatchJob_add w kw deps p =
     (if list_all (\<lambda>d. d < length (job_list p)) deps
      then Inr (length (job_list p),
                p\<lparr>job_list := job_list p @ [\<lparr>work = w, kwargs = kw, dependencies = deps, state = Pending\<rparr>]\<rparr>)
      else Inl InvalidDependency)"

text \<open>
  Modelled from the spec: the ready set holds the jobs that are still Pending and whose
  dependencies have all succeeded; a job with no dependency is eligible at once.
\<close>

definition ready_set :: "batch_pool \<Rightarrow> handle list" where
  "ready_set p =
     filter (\<lambda>h. state (job_list p ! h) = Pending \<and>
                 list_all (\<lambda>d. d < length (job_list p) \<and> state (job_list p ! d) = Succeeded)
                   (dependencies (job_list p ! h)))
       [0..<length (job_list p)]"

text \<open>
  Modelled from the spec: the jobs a join waits for are the requested handles and,
  transitively, everything they depend on. The table gives the dependencies of every
  handle; the closure is reached after at most as many rounds as there are jobs.
\<close>

definition deps_of :: "handle list list \<Rightarrow> handle set \<Rightarrow> handle set" where
  "deps_of tbl S = (\<Union>h\<in>S. if h < length tbl then set (tbl ! h) else {})"

fun reach :: "handle list list \<Rightarrow> nat \<Rightarrow> handle set \<Rightarrow> handle set" where
  "reach tbl 0 S = S"
| "reach tbl (Suc n) S = reach tbl n (S \<union> deps_of tbl S)"

definition needed :: "handle list list \<Rightarrow> handle list \<Rightarrow> handle set" where
  "needed tbl handles = reach tbl (length tbl) (set handles)"

text \<open>
  Modelled from the spec: a Pending job is Skipped when a dependency has Failed or was
  Skipped, runs when all its dependencies have Succeeded, and ends Succeeded or Failed
  as its work returns or raises. No job runs twice.
\<close>

definition settle_job :: "(work \<Rightarrow> bool) \<Rightarrow> handle \<Rightarrow> batch_pool \<Rightarrow> batch_pool" where
  "settle_job ok h p =
     (let j = job_list p ! h;
          ds = dependencies j
      in if state j \<noteq> Pending then p
         else if list_ex (\<lambda>d. d < length (job_list p) \<and>
                    (state (job_list p ! d) = Failed \<or> state (job_list p ! d) = Skipped)) ds
         then p\<lparr>job_list := (job_list p)[h := j\<lparr>state := Skipped\<rparr>]\<rparr>
         else if list_all (\<lambda>d. d < length (job_list p) \<and> state (job_list p ! d) = Succeeded) ds
         then p\<lparr>job_list := (job_list p)[h := j\<lparr>state := (if ok (work j) then Succeeded else Failed)\<rparr>]\<rparr>
         else p)"

text \<open>
  Modelled from the spec: join brings every needed job to a terminal state, in submission
  order (dependencies are earlier submissions), and returns All-Succeeded or the
  Partial-Failure listing the failed and the skipped jobs.
\<close>

definition BatchJob_join ::
  "(work \<Rightarrow> bool) \<Rightarrow> handle list \<Rightarrow> batch_pool \<Rightarrow> outcome \<times> batch_pool" where
  "BatchJob_join ok handles p =
     (let nd = needed (map dependencies (job_list p)) handles;
          p' = fold (\<lambda>h q. if h \<in> nd then settle_job ok h q else q) [0..<length (job_list p)] p;
          failed = filter (\<lambda>h. h \<in> nd \<and> state (job_list p' ! h) = Failed) [0..<length (job_list p')];
          skipped = filter (\<lambda>h. h \<in> nd \<and> state (job_list p' ! h) = Skipped) [0..<length (job_list p')]
      in (if failed = [] \<and> skipped = [] then All_Succeeded else Partial_Failure failed skipped,
          p'))"

text \<open>
  Modelled from the spec: the external-process wrapper \<^verbatim>\<open>execute_command\<close> of
  \<^verbatim>\<open>prosoda/util.py\<close> takes the argument vector, the direct I/O flag and the working
  directory, returns on exit status zero and raises a job failure otherwise.
\<close>

definition execute_command ::
  "(string list \<Rightarrow> string \<Rightarrow> int) \<Rightarrow> string list \<Rightarrow> bool \<Rightarrow> string \<Rightarrow> error + unit" where
  "execute_command status cmd direct_io cwd =
     (if status cmd cwd = 0 then Inr () else Inl JobFailure)"

section \<open>Calls of the module, with their effect on the state\<close>

type_synonym 'a run = "run_state \<Rightarrow> (error + 'a) \<times> run_state"

definition ret :: "'a \<Rightarrow> 'a run" where
  "ret x st = (Inr x, st)"

definition then_do :: "'a run \<Rightarrow> ('a \<Rightarrow> 'b run) \<Rightarrow> 'b run" where
  "then_do m f st = (case m st of (Inl e, st') \<Rightarrow> (Inl e, st') | (Inr x, st') \<Rightarrow> f x st')"

definition emit :: "event \<Rightarrow> run_state \<Rightarrow> run_state" where
  "emit e st = st\<lparr>trace := trace st @ [e]\<rparr>"

definition log_info :: "string \<Rightarrow> unit run" where
  "log_info msg st = (Inr (), emit (LogInfo msg) st)"

definition call_set_parallel_jobs :: "int \<Rightarrow> unit run" where
  "call_set_parallel_jobs n st =
     (case BatchJob_set_parallel_jobs n (pool st) of
        Inl e \<Rightarrow> (Inl e, emit (SetParallelJobs n) st)
      | Inr p \<Rightarrow> (Inr (), emit (SetParallelJobs n) (st\<lparr>pool := p\<rparr>)))"

definition call_add :: "work \<Rightarrow> kwargs option \<Rightarrow> handle list \<Rightarrow> handle run" where
  "call_add w kw deps st =
     (case BatchJob_add w kw deps (pool st) of
        Inl e \<Rightarrow> (Inl e, emit (AddRejected w kw deps) st)
      | Inr (h, p) \<Rightarrow> (Inr h, emit (Add h w kw deps) (st\<lparr>pool := p\<rparr>)))"

definition call_join :: "env \<Rightarrow> handle list \<Rightarrow> outcome run" where
  "call_join E handles st =
     (case BatchJob_join (work_succeeds E) handles (pool st) of
        (out, p) \<Rightarrow> (Inr out, emit (Join handles out) (st\<lparr>pool := p\<rparr>)))"

definition call_glob :: "env \<Rightarrow> string \<Rightarrow> string list run" where
  "call_glob E pat st = (Inr (glob E pat), emit (Glob pat) st)"

definition call_execute_command :: "env \<Rightarrow> string list \<Rightarrow> bool \<Rightarrow> string \<Rightarrow> unit run" where
  "call_execute_command E cmd direct_io cwd st =
     (execute_command (exit_status E) cmd direct_io cwd, emit (CallExecuteCommand cmd direct_io cwd) st)"

definition check4ctags :: "unit run" where
  "check4ctags st = (Inr (), emit Check4ctags st)"

definition dispatch_ts_analysis :: "string \<Rightarrow> configuration \<Rightarrow> unit run" where
  "dispatch_ts_analysis resdir conf st = (Inr (), emit (DispatchTs resdir conf) st)"

definition name_of_module :: string where
  "name_of_module = ''prosoda.project''"

section \<open>project_setup\<close>

definition project_setup ::
  "env \<Rightarrow> configuration \<Rightarrow> bool \<Rightarrow> (int \<times> dbmanager \<times> int list) run" where
  "project_setup E conf recreate =
     then_do (log_info (''=> Setting up project '' @ quote @ conf_project conf @ quote)) (\<lambda>_.
       let dbm0 = DBManager E conf;
           (new_range_ids, dbm) =
              update_release_timeline E dbm0 (conf_project conf) (conf_tagging conf)
                (conf_revisions conf) (conf_rcs conf) recreate;
           project_id = getProjectID dbm (conf_project conf) (conf_tagging conf);
           revs = conf_revisions conf;
           all_range_ids =
             map (\<lambda>(start_rev, end_rev).
                    getReleaseRangeID dbm project_id
                      (getRevisionID dbm project_id start_rev, getRevisionID dbm project_id end_rev))
                 (zip revs (drop 1 revs))
       in ret (project_id, dbm, all_range_ids))"

section \<open>project_analyse\<close>

text \<open>The truth value of \<^verbatim>\<open>logfile\<close>: neither None nor the empty string.\<close>

definition logfile_args :: "string option \<Rightarrow> string \<Rightarrow> string list" where
  "logfile_args logfile suffix =
     (case logfile of
        None \<Rightarrow> []
      | Some f \<Rightarrow> if f = [] then [] else [''--logfile'', f @ suffix])"

text \<open>
  The list comprehension that submits one \<^verbatim>\<open>layout_graph\<close> job per file, each depending
  on the cluster job and on the log job.
\<close>

fun add_dotjobs :: "handle \<Rightarrow> handle \<Rightarrow> string list \<Rightarrow> handle list run" where
  "add_dotjobs s2 lj [] = ret []"
| "add_dotjobs s2 lj (file # files) =
     then_do (call_add (LayoutGraph file) None [s2, lj]) (\<lambda>h.
     then_do (add_dotjobs s2 lj files) (\<lambda>hs.
     ret (h # hs)))"

text \<open>The body of the loop over the revision ranges; it returns the list \<^verbatim>\<open>jobs\<close>.\<close>

definition analyse_range ::
  "env \<Rightarrow> configuration \<Rightarrow> int \<Rightarrow> dbmanager \<Rightarrow> string \<Rightarrow> string \<Rightarrow> string \<Rightarrow> string \<Rightarrow> bool \<Rightarrow>
   string \<Rightarrow> string option \<Rightarrow> handle list \<Rightarrow> nat \<Rightarrow> int \<Rightarrow> handle list run" where
  "analyse_range E conf project_id dbm project_resdir repo prosoda_conf project_conf no_report
       loglevel logfile jobs i range_id =
     (let (start_rev, end_rev, rc_rev) = get_release_range dbm project_id range_id;
          range_resdir = pathjoin E [project_resdir, start_rev @ ''-'' @ end_rev];
          limit_history = True
      in
      then_do (call_add (DoProjectAnalysis conf start_rev end_rev rc_rev range_resdir repo True
                 limit_history) None []) (\<lambda>s1.
      let exe = resource_filename E name_of_module ''R/cluster/persons.r'';
          (cwd, _) = pathsplit E exe;
          cmd = [exe] @ [''--loglevel'', loglevel]
                @ logfile_args logfile (''.R.r'' @ str_nat i)
                @ [''-c'', prosoda_conf] @ [''-p'', project_conf]
                @ [range_resdir] @ [str_int range_id]
      in
      then_do (call_add (Loginfo (''  -> Analysing revision range '' @ start_rev @ ''..'' @ end_rev
                 @ '': Detecting clusters...'')) None [s1]) (\<lambda>_.
      then_do (call_add (ExecuteCommand cmd)
                 (Some [(''direct_io'', KBool True), (''cwd'', KStr cwd)]) [s1]) (\<lambda>s2.
      let jobs = jobs @ [s2] in
      if \<not> no_report then
        then_do (call_glob E (pathjoin E [range_resdir, ''*.dot''])) (\<lambda>files.
        then_do (call_add (Loginfo (''  -> Analysing revision range '' @ start_rev @ ''..''
                   @ end_rev @ '': Generating Reports...'')) None [s2]) (\<lambda>lj.
        then_do (add_dotjobs s2 lj files) (\<lambda>dotjobs.
        then_do (call_add (GenerateReport start_rev end_rev range_resdir) None dotjobs) (\<lambda>rep.
        ret (jobs @ [rep])))))
      else ret jobs))))"

fun analyse_ranges ::
  "env \<Rightarrow> configuration \<Rightarrow> int \<Rightarrow> dbmanager \<Rightarrow> string \<Rightarrow> string \<Rightarrow> string \<Rightarrow> string \<Rightarrow> bool \<Rightarrow>
   string \<Rightarrow> string option \<Rightarrow> handle list \<Rightarrow> (nat \<times> int) list \<Rightarrow> handle list run" where
  "analyse_ranges E conf project_id dbm project_resdir repo prosoda_conf project_conf no_report
       loglevel logfile jobs [] = ret jobs"
| "analyse_ranges E conf project_id dbm project_resdir repo prosoda_conf project_conf no_report
       loglevel logfile jobs ((i, range_id) # rest) =
     then_do (analyse_range E conf project_id dbm project_resdir repo prosoda_conf project_conf
                no_report loglevel logfile jobs i range_id) (\<lambda>jobs'.
     analyse_ranges E conf project_id dbm project_resdir repo prosoda_conf project_conf no_report
       loglevel logfile jobs' rest)"

definition project_analyse ::
  "env \<Rightarrow> string \<Rightarrow> string \<Rightarrow> string \<Rightarrow> string \<Rightarrow> bool \<Rightarrow> string \<Rightarrow> string option \<Rightarrow> bool \<Rightarrow> int \<Rightarrow>
   unit run" where
  "project_analyse E resdir gitdir prosoda_conf project_conf no_report loglevel logfile recreate
       n_jobs =
     then_do (call_set_parallel_jobs n_jobs) (\<lambda>_.
     let conf = Configuration_load E prosoda_conf project_conf;
         repo = pathjoin E [gitdir, conf_repo conf, ''.git''];
         project_resdir = pathjoin E [resdir, conf_project conf, conf_tagging conf]
     in
     then_do (if ''proximity'' = conf_tagging conf then check4ctags else ret ()) (\<lambda>_.
     then_do (project_setup E conf recreate) (\<lambda>(project_id, dbm, all_range_ids).
     then_do (analyse_ranges E conf project_id dbm project_resdir repo prosoda_conf project_conf
                no_report loglevel logfile [] (enumerate 0 all_range_ids)) (\<lambda>jobs.
     then_do (call_join E jobs) (\<lambda>_.
     then_do (log_info ''=> Preparing time series data'') (\<lambda>_.
     then_do (dispatch_ts_analysis project_resdir conf) (\<lambda>_.
     then_do (log_info ''=> Analysing time series'') (\<lambda>_.
     let exe = resource_filename E name_of_module ''R/analyse_ts.r'';
         (cwd, _) = pathsplit E exe;
         cmd = [exe] @ logfile_args logfile ''.R.ts''
               @ [''--loglevel'', loglevel] @ [''-c'', prosoda_conf] @ [''-p'', project_conf]
               @ [project_resdir]
     in
     then_do (call_execute_command E cmd True cwd) (\<lambda>_.
     log_info ''=> Prosoda run complete!'')))))))))"

section \<open>mailinglist_analyse\<close>

fun analyse_mailinglists ::
  "env \<Rightarrow> string \<Rightarrow> string \<Rightarrow> string list \<Rightarrow> string option \<Rightarrow> (nat \<times> mailinglist) list \<Rightarrow> unit run"
  where
  "analyse_mailinglists E exe cwd cmd logfile [] = ret ()"
| "analyse_mailinglists E exe cwd cmd logfile ((i, ml) # rest) =
     then_do (log_info (''=> Analysing mailing list '' @ quote @ ml_name ml @ quote @ '' of type ''
                @ quote @ ml_type ml @ quote)) (\<lambda>_.
     let logargs = logfile_args logfile (''.R.ml.'' @ str_nat i) in
     then_do (call_execute_command E ([exe] @ logargs @ cmd @ [ml_name ml]) True cwd) (\<lambda>_.
     analyse_mailinglists E exe cwd cmd logfile rest))"

definition mailinglist_analyse ::
  "env \<Rightarrow> string \<Rightarrow> string \<Rightarrow> string \<Rightarrow> string \<Rightarrow> string \<Rightarrow> string option \<Rightarrow> int \<Rightarrow> unit run" where
  "mailinglist_analyse E resdir mldir prosoda_conf project_conf loglevel logfile jobs =
     (let conf = Configuration_load E prosoda_conf project_conf;
          ml_resdir = pathjoin E [resdir, conf_project conf, ''ml''];
          exe = resource_filename E name_of_module ''R/ml/batch.r'';
          (cwd, _) = pathsplit E exe;
          cmd = [''--loglevel'', loglevel] @ [''-c'', prosoda_conf] @ [''-p'', project_conf]
                @ [''-j'', str_int jobs] @ [ml_resdir] @ [mldir]
      in
      then_do (analyse_mailinglists E exe cwd cmd logfile (enumerate 0 (conf_mailinglists conf)))
        (\<lambda>_.
      log_info ''=> Prosoda mailing list analysis complete!''))"

section \<open>The calls of a run\<close>

text \<open>
  The calls that a run makes when it is started in a state: what it appends to the
  trace.
\<close>

definition calls_made :: "'a run \<Rightarrow> run_state \<Rightarrow> event list" where
  "calls_made m st = drop (length (trace st)) (trace (snd (m st)))"


section \<open>The calls of a run in closed form\<close>

text \<open>
  The functions of this section list the calls of \<^verbatim>\<open>project_analyse\<close> and of
  \<^verbatim>\<open>mailinglist_analyse\<close> directly, without running the model: the handle of every
  submission is computed from the number \<open>b\<close> of jobs that the pool held before. They
  are proved below to be the calls that the model makes, and serve the proofs only.
\<close>

text \<open>
  The jobs that a sequence of calls adds to the pool, and the state after a sequence of
  calls none of which fails or joins.
\<close>

fun jobs_of :: "event list \<Rightarrow> job list" where
  "jobs_of [] = []"
| "jobs_of (Add h w kw ds # es) = \<lparr>work = w, kwargs = kw, dependencies = ds, state = Pending\<rparr> # jobs_of es"
| "jobs_of (e # es) = jobs_of es"

definition submitted :: "event list \<Rightarrow> run_state \<Rightarrow> run_state" where
  "submitted evs st =
     st\<lparr>pool := (pool st)\<lparr>job_list := job_list (pool st) @ jobs_of evs\<rparr>, trace := trace st @ evs\<rparr>"

text \<open>
  The calls of one pass of the loop body: the submissions of the \<^verbatim>\<open>layout_graph\<close> jobs
  with their handles, all calls of the range, the handles it appends to \<^verbatim>\<open>jobs\<close>, and
  the number of jobs it submits.
\<close>

definition dot_events :: "nat \<Rightarrow> handle \<Rightarrow> handle \<Rightarrow> string list \<Rightarrow> event list" where
  "dot_events b s2 lj files =
     map (\<lambda>(k, file). Add (b + k) (LayoutGraph file) None [s2, lj]) (enumerate 0 files)"

definition dot_handles :: "nat \<Rightarrow> string list \<Rightarrow> handle list" where
  "dot_handles b files = map (\<lambda>k. b + k) [0..<length files]"

definition range_events ::
  "env \<Rightarrow> configuration \<Rightarrow> int \<Rightarrow> dbmanager \<Rightarrow> string \<Rightarrow> string \<Rightarrow> string \<Rightarrow> string \<Rightarrow> bool \<Rightarrow>
   string \<Rightarrow> string option \<Rightarrow> nat \<Rightarrow> nat \<Rightarrow> int \<Rightarrow> event list" where
  "range_events E conf project_id dbm project_resdir repo prosoda_conf project_conf no_report
       loglevel logfile b i range_id =
     (let (start_rev, end_rev, rc_rev) = get_release_range dbm project_id range_id;
          range_resdir = pathjoin E [project_resdir, start_rev @ ''-'' @ end_rev];
          exe = resource_filename E name_of_module ''R/cluster/persons.r'';
          cwd = fst (pathsplit E exe);
          cmd = [exe, ''--loglevel'', loglevel]
                @ logfile_args logfile (''.R.r'' @ str_nat i)
                @ [''-c'', prosoda_conf, ''-p'', project_conf, range_resdir, str_int range_id];
          files = glob E (pathjoin E [range_resdir, ''*.dot''])
      in [Add b (DoProjectAnalysis conf start_rev end_rev rc_rev range_resdir repo True True)
            None [],
          Add (b + 1) (Loginfo (''  -> Analysing revision range '' @ start_rev @ ''..'' @ end_rev
            @ '': Detecting clusters...'')) None [b],
          Add (b + 2) (ExecuteCommand cmd)
            (Some [(''direct_io'', KBool True), (''cwd'', KStr cwd)]) [b]]
         @ (if no_report then []
            else [Glob (pathjoin E [range_resdir, ''*.dot'']),
                  Add (b + 3) (Loginfo (''  -> Analysing revision range '' @ start_rev @ ''..''
                    @ end_rev @ '': Generating Reports...'')) None [b + 2]]
                 @ dot_events (b + 4) (b + 2) (b + 3) files
                 @ [Add (b + 4 + length files) (GenerateReport start_rev end_rev range_resdir)
                      None (dot_handles (b + 4) files)]))"

definition range_handles ::
  "env \<Rightarrow> int \<Rightarrow> dbmanager \<Rightarrow> string \<Rightarrow> bool \<Rightarrow> nat \<Rightarrow> int \<Rightarrow> handle list" where
  "range_handles E project_id dbm project_resdir no_report b range_id =
     (let (start_rev, end_rev, rc_rev) = get_release_range dbm project_id range_id;
          range_resdir = pathjoin E [project_resdir, start_rev @ ''-'' @ end_rev];
          files = glob E (pathjoin E [range_resdir, ''*.dot''])
      in [b + 2] @ (if no_report then [] else [b + 4 + length files]))"

definition range_size :: "env \<Rightarrow> int \<Rightarrow> dbmanager \<Rightarrow> string \<Rightarrow> bool \<Rightarrow> int \<Rightarrow> nat" where
  "range_size E project_id dbm project_resdir no_report range_id =
     (let (start_rev, end_rev, rc_rev) = get_release_range dbm project_id range_id;
          range_resdir = pathjoin E [project_resdir, start_rev @ ''-'' @ end_rev];
          files = glob E (pathjoin E [range_resdir, ''*.dot''])
      in if no_report then 3 else 5 + length files)"

text \<open>
The calls of the whole loop, and the list \<^verbatim>\<open>jobs\<close> that it builds.
\<close>

fun loop_events ::
  "env \<Rightarrow> configuration \<Rightarrow> int \<Rightarrow> dbmanager \<Rightarrow> string \<Rightarrow> string \<Rightarrow> string \<Rightarrow> string \<Rightarrow> bool \<Rightarrow>
   string \<Rightarrow> string option \<Rightarrow> nat \<Rightarrow> nat \<Rightarrow> int list \<Rightarrow> event list" where
  "loop_events E conf project_id dbm project_resdir repo prosoda_conf project_conf no_report
       loglevel logfile b i [] = []"
| "loop_events E conf project_id dbm project_resdir repo prosoda_conf project_conf no_report
       loglevel logfile b i (range_id # rest) =
     range_events E conf project_id dbm project_resdir repo prosoda_conf project_conf
       no_report loglevel logfile b i range_id
     @ loop_events E conf project_id dbm project_resdir repo prosoda_conf project_conf
         no_report loglevel logfile
         (b + range_size E project_id dbm project_resdir no_report range_id) (Suc i) rest"

fun loop_handles ::
  "env \<Rightarrow> int \<Rightarrow> dbmanager \<Rightarrow> string \<Rightarrow> bool \<Rightarrow> nat \<Rightarrow> int list \<Rightarrow> handle list" where
  "loop_handles E project_id dbm project_resdir no_report b [] = []"
| "loop_handles E project_id dbm project_resdir no_report b (range_id # rest) =
     range_handles E project_id dbm project_resdir no_report b range_id
     @ loop_handles E project_id dbm project_resdir no_report
         (b + range_size E project_id dbm project_resdir no_report range_id) rest"

text \<open>
  The value that \<^verbatim>\<open>project_setup\<close> returns, the command of the time-series analysis,
  and the four parts of the calls of a run of \<^verbatim>\<open>project_analyse\<close>: the set-up, the
  submissions, the join (on the pool as it is before the join) and the global stages.
\<close>

definition release_ranges :: "env \<Rightarrow> configuration \<Rightarrow> bool \<Rightarrow> int \<times> dbmanager \<times> int list" where
  "release_ranges E conf recreate =
     (let dbm = snd (update_release_timeline E (DBManager E conf) (conf_project conf)
                  (conf_tagging conf) (conf_revisions conf) (conf_rcs conf) recreate);
          project_id = getProjectID dbm (conf_project conf) (conf_tagging conf);
          revs = conf_revisions conf
      in (project_id, dbm,
          map (\<lambda>(start_rev, end_rev).
                 getReleaseRangeID dbm project_id
                   (getRevisionID dbm project_id start_rev, getRevisionID dbm project_id end_rev))
              (zip revs (drop 1 revs))))"

definition ts_cmd :: "env \<Rightarrow> string \<Rightarrow> string \<Rightarrow> string \<Rightarrow> string option \<Rightarrow> string \<Rightarrow> string list" where
  "ts_cmd E prosoda_conf project_conf loglevel logfile project_resdir =
     [resource_filename E name_of_module ''R/analyse_ts.r'']
     @ logfile_args logfile ''.R.ts''
     @ [''--loglevel'', loglevel, ''-c'', prosoda_conf, ''-p'', project_conf, project_resdir]"

definition ts_cwd :: "env \<Rightarrow> string" where
  "ts_cwd E = fst (pathsplit E (resource_filename E name_of_module ''R/analyse_ts.r''))"

definition submit_events ::
  "env \<Rightarrow> string \<Rightarrow> string \<Rightarrow> string \<Rightarrow> string \<Rightarrow> bool \<Rightarrow> string \<Rightarrow> string option \<Rightarrow> bool \<Rightarrow> nat
   \<Rightarrow> event list" where
  "submit_events E resdir gitdir prosoda_conf project_conf no_report loglevel logfile recreate b =
     (let conf = Configuration_load E prosoda_conf project_conf;
          repo = pathjoin E [gitdir, conf_repo conf, ''.git''];
          project_resdir = pathjoin E [resdir, conf_project conf, conf_tagging conf];
          (project_id, dbm, all_range_ids) = release_ranges E conf recreate
      in loop_events E conf project_id dbm project_resdir repo prosoda_conf project_conf
           no_report loglevel logfile b 0 all_range_ids)"

definition joined_handles ::
  "env \<Rightarrow> string \<Rightarrow> string \<Rightarrow> string \<Rightarrow> bool \<Rightarrow> bool \<Rightarrow> nat \<Rightarrow> handle list" where
  "joined_handles E resdir prosoda_conf project_conf no_report recreate b =
     (let conf = Configuration_load E prosoda_conf project_conf;
          project_resdir = pathjoin E [resdir, conf_project conf, conf_tagging conf];
          (project_id, dbm, all_range_ids) = release_ranges E conf recreate
      in loop_handles E project_id dbm project_resdir no_report b all_range_ids)"

definition final_events ::
  "env \<Rightarrow> string \<Rightarrow> string \<Rightarrow> string \<Rightarrow> string \<Rightarrow> string option \<Rightarrow> event list" where
  "final_events E resdir prosoda_conf project_conf loglevel logfile =
     (let conf = Configuration_load E prosoda_conf project_conf;
          project_resdir = pathjoin E [resdir, conf_project conf, conf_tagging conf];
          cmd = ts_cmd E prosoda_conf project_conf loglevel logfile project_resdir
      in [LogInfo ''=> Preparing time series data'',
          DispatchTs project_resdir conf,
          LogInfo ''=> Analysing time series'',
          CallExecuteCommand cmd True (ts_cwd E)]
         @ (if exit_status E cmd (ts_cwd E) = 0 then [LogInfo ''=> Prosoda run complete!'']
            else []))"

definition setup_events :: "env \<Rightarrow> string \<Rightarrow> string \<Rightarrow> int \<Rightarrow> event list" where
  "setup_events E prosoda_conf project_conf n_jobs =
     (let conf = Configuration_load E prosoda_conf project_conf
      in [SetParallelJobs n_jobs]
         @ (if ''proximity'' = conf_tagging conf then [Check4ctags] else [])
         @ [LogInfo (''=> Setting up project '' @ quote @ conf_project conf @ quote)])"

definition pool_before_join ::
  "env \<Rightarrow> string \<Rightarrow> string \<Rightarrow> string \<Rightarrow> string \<Rightarrow> bool \<Rightarrow> string \<Rightarrow> string option \<Rightarrow> bool \<Rightarrow> int
   \<Rightarrow> batch_pool \<Rightarrow> batch_pool" where
  "pool_before_join E resdir gitdir prosoda_conf project_conf no_report loglevel logfile recreate
       n_jobs p =
     p\<lparr>parallel_jobs := Some n_jobs,
       job_list := job_list p @ jobs_of (submit_events E resdir gitdir prosoda_conf project_conf
                     no_report loglevel logfile recreate (length (job_list p)))\<rparr>"

definition join_result ::
  "env \<Rightarrow> string \<Rightarrow> string \<Rightarrow> string \<Rightarrow> string \<Rightarrow> bool \<Rightarrow> string \<Rightarrow> string option \<Rightarrow> bool \<Rightarrow> int
   \<Rightarrow> batch_pool \<Rightarrow> outcome \<times> batch_pool" where
  "join_result E resdir gitdir prosoda_conf project_conf no_report loglevel logfile recreate
       n_jobs p =
     BatchJob_join (work_succeeds E)
       (joined_handles E resdir prosoda_conf project_conf no_report recreate (length (job_list p)))
       (pool_before_join E resdir gitdir prosoda_conf project_conf no_report loglevel logfile
          recreate n_jobs p)"

text \<open>
  What the loop calls: a glob, or a submission whose dependencies are smaller than the
  handle it returns and whose keyword arguments are those of the cluster job for
  \<^verbatim>\<open>execute_command\<close> and absent for every other callable.
\<close>

definition submission :: "env \<Rightarrow> event \<Rightarrow> bool" where
  "submission E e =
     (case e of
        Add h w kw ds \<Rightarrow>
          (\<forall>d\<in>set ds. d < h) \<and>
          (case w of
             ExecuteCommand cmd \<Rightarrow>
               kw = Some [(''direct_io'', KBool True),
                          (''cwd'', KStr (fst (pathsplit E
                             (resource_filename E name_of_module ''R/cluster/persons.r''))))]
               \<and> cmd \<noteq> [] \<and> hd cmd = resource_filename E name_of_module ''R/cluster/persons.r''
           | _ \<Rightarrow> kw = None)
      | Glob pat \<Rightarrow> True
      | _ \<Rightarrow> False)"

subsection \<open>Observations on a sequence of calls\<close>

text \<open>
  The handles that the submissions of a sequence of calls returned; whether every
  submission names only handles seen before it; the handles of the cluster-detection
  (\<^verbatim>\<open>execute_command\<close>) and report-generation jobs submitted, in order; and whether a
  call is a submission.
\<close>

fun handles_of :: "event list \<Rightarrow> handle list" where
  "handles_of [] = []"
| "handles_of (Add h w kw ds # es) = h # handles_of es"
| "handles_of (e # es) = handles_of es"

fun deps_earlier :: "handle set \<Rightarrow> event list \<Rightarrow> bool" where
  "deps_earlier seen [] = True"
| "deps_earlier seen (Add h w kw ds # es) = (set ds \<subseteq> seen \<and> deps_earlier (insert h seen) es)"
| "deps_earlier seen (e # es) = deps_earlier seen es"

fun cluster_and_report_handles :: "event list \<Rightarrow> handle list" where
  "cluster_and_report_handles [] = []"
| "cluster_and_report_handles (Add h (ExecuteCommand cmd) kw ds # es) =
     h # cluster_and_report_handles es"
| "cluster_and_report_handles (Add h (GenerateReport a b c) kw ds # es) =
     h # cluster_and_report_handles es"
| "cluster_and_report_handles (e # es) = cluster_and_report_handles es"

fun is_add :: "event \<Rightarrow> bool" where
  "is_add (Add h w kw ds) = True"
| "is_add e = False"

subsection \<open>mailinglist_analyse in closed form\<close>

text \<open>
  The calls of the loop over the mailing lists, which ends at the first command that
  exits with a status other than zero; whether every command exits with status zero; and
  the arguments common to all commands.
\<close>

fun ml_events ::
  "env \<Rightarrow> string \<Rightarrow> string \<Rightarrow> string list \<Rightarrow> string option \<Rightarrow> (nat \<times> mailinglist) list
   \<Rightarrow> event list" where
  "ml_events E exe cwd cmd logfile [] = []"
| "ml_events E exe cwd cmd logfile ((i, ml) # rest) =
     [LogInfo (''=> Analysing mailing list '' @ quote @ ml_name ml @ quote @ '' of type ''
        @ quote @ ml_type ml @ quote),
      CallExecuteCommand ([exe] @ logfile_args logfile (''.R.ml.'' @ str_nat i) @ cmd
        @ [ml_name ml]) True cwd]
     @ (if exit_status E ([exe] @ logfile_args logfile (''.R.ml.'' @ str_nat i) @ cmd
             @ [ml_name ml]) cwd = 0
        then ml_events E exe cwd cmd logfile rest else [])"

fun ml_ok ::
  "env \<Rightarrow> string \<Rightarrow> string \<Rightarrow> string list \<Rightarrow> string option \<Rightarrow> (nat \<times> mailinglist) list
   \<Rightarrow> bool" where
  "ml_ok E exe cwd cmd logfile [] = True"
| "ml_ok E exe cwd cmd logfile ((i, ml) # rest) =
     (exit_status E ([exe] @ logfile_args logfile (''.R.ml.'' @ str_nat i) @ cmd
          @ [ml_name ml]) cwd = 0
      \<and> ml_ok E exe cwd cmd logfile rest)"

definition ml_cmd :: "env \<Rightarrow> string \<Rightarrow> string \<Rightarrow> string \<Rightarrow> string \<Rightarrow> string \<Rightarrow> int \<Rightarrow> string list" where
  "ml_cmd E resdir mldir prosoda_conf project_conf loglevel n =
     [''--loglevel'', loglevel, ''-c'', prosoda_conf, ''-p'', project_conf, ''-j'', str_int n,
      pathjoin E [resdir, conf_project (Configuration_load E prosoda_conf project_conf), ''ml''],
      mldir]"

section \<open>An example project\<close>

text \<open>
  A project with three revisions and two mailing lists. Its first range, from v1 to v2,
  has two \<^verbatim>\<open>.dot\<close> files in its result directory, its second range has none; every
  command exits with status zero and every job succeeds. The paths follow the POSIX
  conventions.
\<close>

definition demo_conf :: configuration where
  "demo_conf =
     \<lparr>conf_project = ''qemu'', conf_tagging = ''tag'', conf_revisions = [''v1'', ''v2'', ''v3''],
      conf_rcs = [None, None, None], conf_repo = ''qemu'',
      conf_mailinglists = [\<lparr>ml_name = ''devel'', ml_type = ''dev''\<rparr>, \<lparr>ml_name = ''user'', ml_type = ''user''\<rparr>]\<rparr>"

definition demo_dbm :: dbmanager where
  "demo_dbm =
     \<lparr>getProjectID = (\<lambda>_ _. 1),
      getRevisionID = (\<lambda>_ tag. if tag = ''v1'' then 1 else if tag = ''v2'' then 2 else 3),
      getReleaseRangeID = (\<lambda>_ (a, b). a),
      get_release_range =
        (\<lambda>_ r. if r = 1 then (''v1'', ''v2'', None) else (''v2'', ''v3'', None))\<rparr>"

definition demo_env :: env where
  "demo_env =
     \<lparr>Configuration_load = (\<lambda>_ _. demo_conf),
      DBManager = (\<lambda>_. demo_dbm),
      update_release_timeline = (\<lambda>dbm _ _ _ _ _. ([], dbm)),
      resource_filename = (\<lambda>_ r. ''/pkg/'' @ r),
      pathjoin = (\<lambda>ps. foldr (\<lambda>a b. if b = [] then a else a @ ''/'' @ b) ps []),
      pathsplit = (\<lambda>p. (rev (drop 1 (dropWhile (\<lambda>c. c \<noteq> CHR ''/'') (rev p))),
                       rev (takeWhile (\<lambda>c. c \<noteq> CHR ''/'') (rev p)))),
      glob = (\<lambda>pat. if pat = ''res/qemu/tag/v1-v2/*.dot''
                   then [''res/qemu/tag/v1-v2/a.dot'', ''res/qemu/tag/v1-v2/b.dot''] else []),
      exit_status = (\<lambda>_ _. 0),
      work_succeeds = (\<lambda>_. True)\<rparr>"

text \<open>
The state of a process that has not used the batch system yet.
\<close>

definition fresh :: run_state where
  "fresh = \<lparr>pool = \<lparr>parallel_jobs = None, job_list = []\<rparr>, trace = []\<rparr>"

text \<open>
  Variants of the example: a project with a single revision, an environment in which
  the command for the mailing list \<^verbatim>\<open>user\<close> exits with status 1, and the loop and the
  result directory of the second range of the example project.
\<close>

definition demo_env1 :: env where
  "demo_env1 = demo_env\<lparr>Configuration_load := (\<lambda>_ _. demo_conf\<lparr>conf_revisions := [''v1'']\<rparr>)\<rparr>"

definition demo_env_failing :: env where
  "demo_env_failing = demo_env\<lparr>exit_status := (\<lambda>c _. if last c = ''user'' then 1 else 0)\<rparr>"

definition demo_loop :: "handle list run" where
  "demo_loop =
     analyse_ranges demo_env demo_conf 1 demo_dbm ''res/qemu/tag'' ''git/qemu/.git''
       ''prosoda.conf'' ''qemu.conf'' False ''info'' None [] (enumerate 0 [1, 2])"

definition demo_range_resdir :: string where
  "demo_range_resdir = pathjoin demo_env [''res/qemu/tag'', ''v2'' @ ''-'' @ ''v3'']"

section \<open>The model makes the calls of the closed form\<close>

subsection \<open>Single calls\<close>

lemma jobs_of_append: "jobs_of (xs @ ys) = jobs_of xs @ jobs_of ys"
  by (induction xs rule: jobs_of.induct) simp_all

lemma submitted_Nil: "submitted [] st = st"
  by (simp add: submitted_def)

lemma submitted_append: "submitted ys (submitted xs st) = submitted (xs @ ys) st"
  by (simp add: submitted_def jobs_of_append)

lemma length_jobs_submitted:
  "length (job_list (pool (submitted evs st))) = length (job_list (pool st)) + length (jobs_of evs)"
  by (simp add: submitted_def)

lemma call_add_ok:
  assumes "\<forall>d\<in>set deps. d < length (job_list (pool st))"
  shows "call_add w kw deps st =
           (Inr (length (job_list (pool st))),
            submitted [Add (length (job_list (pool st))) w kw deps] st)"
  using assms by (simp add: call_add_def BatchJob_add_def list_all_iff emit_def submitted_def)

lemma call_glob_eq: "call_glob E pat st = (Inr (glob E pat), submitted [Glob pat] st)"
  by (simp add: call_glob_def emit_def submitted_def)

lemma log_info_eq: "log_info msg st = (Inr (), submitted [LogInfo msg] st)"
  by (simp add: log_info_def emit_def submitted_def)

subsection \<open>The loop\<close>

lemma dot_events_Nil: "dot_events b s2 lj [] = []"
  by (simp add: dot_events_def)

lemma dot_events_Cons:
  "dot_events b s2 lj (f # fs) = Add b (LayoutGraph f) None [s2, lj] # dot_events (Suc b) s2 lj fs"
  by (auto simp add: dot_events_def enumerate_eq_zip upt_conv_Cons map_Suc_upt[symmetric] zip_map1 simp del: upt_Suc)

lemma length_jobs_of_dot_events: "length (jobs_of (dot_events b s2 lj files)) = length files"
  by (induction files arbitrary: b) (simp_all add: dot_events_Nil dot_events_Cons)

lemma set_dot_handles: "set (dot_handles b files) = {b ..< b + length files}"
  by (auto simp add: dot_handles_def image_iff intro: le_Suc_ex)

lemma dot_handles_Nil: "dot_handles b [] = []"
  by (simp add: dot_handles_def)

lemma dot_handles_Cons: "dot_handles b (f # fs) = b # dot_handles (Suc b) fs"
  by (simp add: dot_handles_def upt_conv_Cons map_Suc_upt[symmetric] del: upt_Suc)

lemma add_dotjobs_ok:
  assumes "s2 < length (job_list (pool st))" "lj < length (job_list (pool st))"
  shows "add_dotjobs s2 lj files st =
           (Inr (dot_handles (length (job_list (pool st))) files),
            submitted (dot_events (length (job_list (pool st))) s2 lj files) st)"
  using assms
proof (induction files arbitrary: st)
  case Nil
  then show ?case by (simp add: ret_def dot_events_Nil dot_handles_Nil submitted_Nil)
next
  case (Cons f fs)
  let ?b = "length (job_list (pool st))"
  let ?st1 = "submitted [Add ?b (LayoutGraph f) None [s2, lj]] st"
  have a: "call_add (LayoutGraph f) None [s2, lj] st = (Inr ?b, ?st1)"
    using Cons.prems by (intro call_add_ok) simp
  have l: "length (job_list (pool ?st1)) = Suc ?b"
    by (simp add: length_jobs_submitted)
  have r: "add_dotjobs s2 lj fs ?st1 =
             (Inr (dot_handles (Suc ?b) fs), submitted (dot_events (Suc ?b) s2 lj fs) ?st1)"
    using Cons.IH[of ?st1] Cons.prems l by simp
  show ?case
    by (simp add: then_do_def a r ret_def submitted_append dot_events_Cons dot_handles_Cons)
qed

lemma analyse_range_ok:
  "analyse_range E conf project_id dbm project_resdir repo prosoda_conf project_conf no_report
       loglevel logfile js i range_id st =
     (Inr (js @ range_handles E project_id dbm project_resdir no_report
                  (length (job_list (pool st))) range_id),
      submitted (range_events E conf project_id dbm project_resdir repo prosoda_conf project_conf
                   no_report loglevel logfile (length (job_list (pool st))) i range_id) st)"
proof -
  obtain start_rev end_rev rc_rev
    where g: "get_release_range dbm project_id range_id = (start_rev, end_rev, rc_rev)"
    by (cases "get_release_range dbm project_id range_id") auto
  obtain cwd x where s: "pathsplit E (resource_filename E name_of_module ''R/cluster/persons.r'') = (cwd, x)"
    by (cases "pathsplit E (resource_filename E name_of_module ''R/cluster/persons.r'')") auto
  show ?thesis
    unfolding analyse_range_def range_events_def range_handles_def
    by (simp add: g s Let_def then_do_def call_add_ok call_glob_eq add_dotjobs_ok ret_def
        submitted_append length_jobs_submitted length_jobs_of_dot_events jobs_of_append
        set_dot_handles eval_nat_numeral)
qed

lemma length_jobs_of_range_events:
  "length (jobs_of (range_events E conf project_id dbm project_resdir repo prosoda_conf
       project_conf no_report loglevel logfile b i range_id))
   = range_size E project_id dbm project_resdir no_report range_id"
  by (cases "get_release_range dbm project_id range_id")
    (simp add: range_events_def range_size_def Let_def jobs_of_append length_jobs_of_dot_events)

lemma analyse_ranges_ok:
  "analyse_ranges E conf project_id dbm project_resdir repo prosoda_conf project_conf no_report
       loglevel logfile js (enumerate i ids) st =
     (Inr (js @ loop_handles E project_id dbm project_resdir no_report
                  (length (job_list (pool st))) ids),
      submitted (loop_events E conf project_id dbm project_resdir repo prosoda_conf project_conf
                   no_report loglevel logfile (length (job_list (pool st))) i ids) st)"
proof (induction ids arbitrary: i js st)
  case Nil
  show ?case by (simp add: ret_def submitted_Nil)
next
  case (Cons range_id rest)
  show ?case
    by (simp add: then_do_def analyse_range_ok Cons.IH length_jobs_submitted
        length_jobs_of_range_events submitted_append)
qed

subsection \<open>project_analyse\<close>

lemma project_setup_ok:
  "project_setup E conf recreate st =
     (Inr (release_ranges E conf recreate),
      submitted [LogInfo (''=> Setting up project '' @ quote @ conf_project conf @ quote)] st)"
  by (simp add: project_setup_def release_ranges_def then_do_def log_info_eq ret_def Let_def
      split: prod.split)

lemma call_execute_command_eq:
  "call_execute_command E cmd d cwd st =
     (execute_command (exit_status E) cmd d cwd, submitted [CallExecuteCommand cmd d cwd] st)"
  by (simp add: call_execute_command_def emit_def submitted_def)

lemma check4ctags_eq: "check4ctags st = (Inr (), submitted [Check4ctags] st)"
  by (simp add: check4ctags_def emit_def submitted_def)

lemma check_step:
  "(if c then check4ctags else ret ()) st =
     (Inr (), submitted (if c then [Check4ctags] else []) st)"
  by (simp add: check4ctags_eq ret_def submitted_Nil)

lemma call_join_eq:
  "call_join E hs st =
     (Inr (fst (BatchJob_join (work_succeeds E) hs (pool st))),
      emit (Join hs (fst (BatchJob_join (work_succeeds E) hs (pool st))))
        (st\<lparr>pool := snd (BatchJob_join (work_succeeds E) hs (pool st))\<rparr>))"
  by (simp add: call_join_def split: prod.split)

lemma dispatch_ts_eq:
  "dispatch_ts_analysis d c st = (Inr (), submitted [DispatchTs d c] st)"
  by (simp add: dispatch_ts_analysis_def emit_def submitted_def)

lemma project_analyse_rejected:
  assumes "n_jobs \<le> 0 \<or> dispatch_started (pool st0)"
  shows "project_analyse E resdir gitdir prosoda_conf project_conf no_report loglevel logfile
           recreate n_jobs st0 =
         (Inl ConfigurationError, st0\<lparr>trace := trace st0 @ [SetParallelJobs n_jobs]\<rparr>)"
  using assms
  by (simp add: project_analyse_def then_do_def call_set_parallel_jobs_def
      BatchJob_set_parallel_jobs_def emit_def)

lemma project_analyse_closed:
  assumes "0 < n_jobs" "\<not> dispatch_started (pool st0)"
  shows "project_analyse E resdir gitdir prosoda_conf project_conf no_report loglevel logfile
           recreate n_jobs st0 =
         (execute_command (exit_status E)
            (ts_cmd E prosoda_conf project_conf loglevel logfile
               (pathjoin E [resdir, conf_project (Configuration_load E prosoda_conf project_conf),
                  conf_tagging (Configuration_load E prosoda_conf project_conf)])) True (ts_cwd E),
          \<lparr>pool = snd (join_result E resdir gitdir prosoda_conf project_conf no_report loglevel
                    logfile recreate n_jobs (pool st0)),
           trace = trace st0
             @ setup_events E prosoda_conf project_conf n_jobs
             @ submit_events E resdir gitdir prosoda_conf project_conf no_report loglevel logfile
                 recreate (length (job_list (pool st0)))
             @ [Join (joined_handles E resdir prosoda_conf project_conf no_report recreate
                        (length (job_list (pool st0))))
                  (fst (join_result E resdir gitdir prosoda_conf project_conf no_report loglevel
                    logfile recreate n_jobs (pool st0)))]
             @ final_events E resdir prosoda_conf project_conf loglevel logfile\<rparr>)"
proof -
  let ?st1 = "emit (SetParallelJobs n_jobs) (st0\<lparr>pool := (pool st0)\<lparr>parallel_jobs := Some n_jobs\<rparr>\<rparr>)"
  have c: "call_set_parallel_jobs n_jobs st0 = (Inr (), ?st1)"
    using assms(1,2) by (simp add: call_set_parallel_jobs_def BatchJob_set_parallel_jobs_def)
  let ?conf = "Configuration_load E prosoda_conf project_conf"
  have l1: "length (job_list (pool ?st1)) = length (job_list (pool st0))"
    by (simp add: emit_def)
  obtain project_id dbm ids where r: "release_ranges E ?conf recreate = (project_id, dbm, ids)"
    by (cases "release_ranges E ?conf recreate") auto
  obtain cwd x where s: "pathsplit E (resource_filename E name_of_module ''R/analyse_ts.r'') = (cwd, x)"
    by (cases "pathsplit E (resource_filename E name_of_module ''R/analyse_ts.r'')") auto
  show ?thesis
    unfolding project_analyse_def
    apply (simp add: then_do_def c Let_def check_step ret_def
        project_setup_ok r analyse_ranges_ok length_jobs_submitted l1 submitted_append
        log_info_eq dispatch_ts_eq call_execute_command_eq s call_join_eq
        split del: if_split)
    apply (simp add: submitted_def emit_def setup_events_def submit_events_def final_events_def
        joined_handles_def pool_before_join_def r Let_def ts_cmd_def join_result_def
        ts_cwd_def s jobs_of_append execute_command_def log_info_def)
    done
qed

lemma project_analyse_result_cases:
  "fst (project_analyse E resdir gitdir prosoda_conf project_conf no_report loglevel logfile
       recreate n_jobs st0) = Inl ConfigurationError
   \<longleftrightarrow> (n_jobs \<le> 0 \<or> dispatch_started (pool st0))"
proof (cases "n_jobs \<le> 0 \<or> dispatch_started (pool st0)")
  case True
  then show ?thesis by (simp add: project_analyse_rejected)
next
  case False
  then have "0 < n_jobs" "\<not> dispatch_started (pool st0)" by auto
  from project_analyse_closed[OF this] False show ?thesis
    by (simp add: execute_command_def)
qed

lemma calls_rejected:
  assumes "fst (project_analyse E resdir gitdir prosoda_conf project_conf no_report loglevel
                  logfile recreate n_jobs st0) = Inl ConfigurationError"
  shows "calls_made (project_analyse E resdir gitdir prosoda_conf project_conf no_report loglevel
           logfile recreate n_jobs) st0 = [SetParallelJobs n_jobs]"
  using assms unfolding project_analyse_result_cases
  by (simp add: calls_made_def project_analyse_rejected)

lemma calls_accepted:
  assumes "fst (project_analyse E resdir gitdir prosoda_conf project_conf no_report loglevel
                  logfile recreate n_jobs st0) \<noteq> Inl ConfigurationError"
  shows "calls_made (project_analyse E resdir gitdir prosoda_conf project_conf no_report loglevel
           logfile recreate n_jobs) st0 =
         setup_events E prosoda_conf project_conf n_jobs
         @ submit_events E resdir gitdir prosoda_conf project_conf no_report loglevel logfile
             recreate (length (job_list (pool st0)))
         @ [Join (joined_handles E resdir prosoda_conf project_conf no_report recreate
                    (length (job_list (pool st0))))
              (fst (join_result E resdir gitdir prosoda_conf project_conf no_report loglevel
                logfile recreate n_jobs (pool st0)))]
         @ final_events E resdir prosoda_conf project_conf loglevel logfile"
proof -
  from assms have "0 < n_jobs" "\<not> dispatch_started (pool st0)"
    unfolding project_analyse_result_cases by auto
  from project_analyse_closed[OF this] show ?thesis
    by (simp add: calls_made_def)
qed

subsection \<open>What the loop submits\<close>

lemma submission_dot_events:
  assumes "e \<in> set (dot_events b s2 lj files)" "s2 < b" "lj < b"
  shows "submission E e"
  using assms by (auto simp add: dot_events_def submission_def in_set_enumerate_eq)

lemma submission_range_events:
  assumes "e \<in> set (range_events E conf project_id dbm project_resdir repo prosoda_conf
             project_conf no_report loglevel logfile b i range_id)"
  shows "submission E e"
proof (cases "get_release_range dbm project_id range_id")
  case (fields start_rev end_rev rc_rev)
  from assms show ?thesis
    unfolding range_events_def fields Let_def prod.case
    by (auto simp add: submission_def set_dot_handles split: if_splits
        intro: submission_dot_events[unfolded submission_def])
qed

lemma submission_loop_events:
  assumes "e \<in> set (loop_events E conf project_id dbm project_resdir repo prosoda_conf
             project_conf no_report loglevel logfile b i ids)"
  shows "submission E e"
  using assms
  by (induction ids arbitrary: b i) (auto dest: submission_range_events)

lemma submission_submit_events:
  assumes "e \<in> set (submit_events E resdir gitdir prosoda_conf project_conf no_report loglevel
             logfile recreate b)"
  shows "submission E e"
  using assms unfolding submit_events_def Let_def
  by (auto split: prod.splits dest: submission_loop_events)

subsection \<open>The run of the example project\<close>

lemma demo_calls:
  "calls_made (project_analyse demo_env ''res'' ''git'' ''prosoda.conf'' ''qemu.conf'' False ''info'' None False 2) fresh =
   [SetParallelJobs 2,
    LogInfo (''=> Setting up project '' @ quote @ ''qemu'' @ quote),
    Add 0 (DoProjectAnalysis demo_conf ''v1'' ''v2'' None ''res/qemu/tag/v1-v2'' ''git/qemu/.git'' True True) None [],
    Add 1 (Loginfo ''  -> Analysing revision range v1..v2: Detecting clusters...'') None [0],
    Add 2 (ExecuteCommand [''/pkg/R/cluster/persons.r'', ''--loglevel'', ''info'', ''-c'',
             ''prosoda.conf'', ''-p'', ''qemu.conf'', ''res/qemu/tag/v1-v2'', ''1''])
      (Some [(''direct_io'', KBool True), (''cwd'', KStr ''/pkg/R/cluster'')]) [0],
    Glob ''res/qemu/tag/v1-v2/*.dot'',
    Add 3 (Loginfo ''  -> Analysing revision range v1..v2: Generating Reports...'') None [2],
    Add 4 (LayoutGraph ''res/qemu/tag/v1-v2/a.dot'') None [2, 3],
    Add 5 (LayoutGraph ''res/qemu/tag/v1-v2/b.dot'') None [2, 3],
    Add 6 (GenerateReport ''v1'' ''v2'' ''res/qemu/tag/v1-v2'') None [4, 5],
    Add 7 (DoProjectAnalysis demo_conf ''v2'' ''v3'' None ''res/qemu/tag/v2-v3'' ''git/qemu/.git'' True True) None [],
    Add 8 (Loginfo ''  -> Analysing revision range v2..v3: Detecting clusters...'') None [7],
    Add 9 (ExecuteCommand [''/pkg/R/cluster/persons.r'', ''--loglevel'', ''info'', ''-c'',
             ''prosoda.conf'', ''-p'', ''qemu.conf'', ''res/qemu/tag/v2-v3'', ''2''])
      (Some [(''direct_io'', KBool True), (''cwd'', KStr ''/pkg/R/cluster'')]) [7],
    Glob ''res/qemu/tag/v2-v3/*.dot'',
    Add 10 (Loginfo ''  -> Analysing revision range v2..v3: Generating Reports...'') None [9],
    Add 11 (GenerateReport ''v2'' ''v3'' ''res/qemu/tag/v2-v3'') None [],
    Join [2, 6, 9, 11] (fst (join_result demo_env ''res'' ''git'' ''prosoda.conf'' ''qemu.conf'' False ''info'' None False 2 (pool fresh))),
    LogInfo ''=> Preparing time series data'',
    DispatchTs ''res/qemu/tag'' demo_conf,
    LogInfo ''=> Analysing time series'',
    CallExecuteCommand [''/pkg/R/analyse_ts.r'', ''--loglevel'', ''info'', ''-c'',
             ''prosoda.conf'', ''-p'', ''qemu.conf'', ''res/qemu/tag''] True ''/pkg/R'',
    LogInfo ''=> Prosoda run complete!'']"
proof -
  have *: "fst (project_analyse demo_env ''res'' ''git'' ''prosoda.conf'' ''qemu.conf'' False ''info'' None False 2 fresh) \<noteq> Inl ConfigurationError"
    by (simp add: project_analyse_result_cases fresh_def dispatch_started_def)
  show ?thesis
    unfolding calls_accepted[OF *]
    by (simp add: setup_events_def submit_events_def final_events_def joined_handles_def
        release_ranges_def range_events_def range_handles_def range_size_def dot_events_def
        dot_handles_def ts_cmd_def ts_cwd_def logfile_args_def demo_env_def demo_conf_def
        demo_dbm_def fresh_def name_of_module_def str_int_def str_nat.simps digit_char_def
        enumerate_eq_zip quote_def Let_def)
qed

subsection \<open>The set-up and the global stages\<close>

lemma not_submission_simps:
  "\<not> submission E (SetParallelJobs m)" "\<not> submission E (Join hs out)"
  "\<not> submission E (CallExecuteCommand cmd d cwd)" "\<not> submission E (DispatchTs r c)"
  "\<not> submission E (AddRejected w kw ds)" "\<not> submission E (LogInfo msg)"
  "\<not> submission E Check4ctags"
  by (simp_all add: submission_def)

lemma set_setup_events:
  "set (setup_events E prosoda_conf project_conf n_jobs) \<subseteq>
     {SetParallelJobs n_jobs, Check4ctags} \<union> range LogInfo"
  by (auto simp add: setup_events_def Let_def)

lemma setup_events_Cons:
  "\<exists>xs. setup_events E prosoda_conf project_conf n_jobs = SetParallelJobs n_jobs # xs
     \<and> set xs \<subseteq> {Check4ctags} \<union> range LogInfo"
  by (auto simp add: setup_events_def Let_def)

lemma set_final_events:
  "set (final_events E resdir prosoda_conf project_conf loglevel logfile) \<subseteq>
     range LogInfo \<union> {e. \<exists>r c. e = DispatchTs r c} \<union> {e. \<exists>cmd cwd. e = CallExecuteCommand cmd True cwd}"
  by (auto simp add: final_events_def Let_def)

subsection \<open>Join on no handle\<close>

lemma deps_of_empty: "deps_of tbl {} = {}"
  by (simp add: deps_of_def)

lemma reach_empty: "reach tbl n {} = {}"
  by (induction n) (simp_all add: deps_of_empty)

lemma needed_Nil: "needed tbl [] = {}"
  by (simp add: needed_def reach_empty)

lemma fold_unneeded: "fold (\<lambda>h q. q) xs p = p"
  by (induction xs) simp_all

lemma BatchJob_join_Nil: "BatchJob_join ok [] p = (All_Succeeded, p)"
  by (simp add: BatchJob_join_def needed_Nil fold_unneeded)

lemma project_setup_result:
  "fst (project_setup E conf recreate s) = Inr (release_ranges E conf recreate)"
  by (simp add: project_setup_ok)

subsection \<open>Dependencies are earlier handles\<close>

lemma handles_of_append: "handles_of (xs @ ys) = handles_of xs @ handles_of ys"
  by (induction xs rule: handles_of.induct) simp_all

lemma deps_earlier_append:
  "deps_earlier seen (xs @ ys) =
     (deps_earlier seen xs \<and> deps_earlier (seen \<union> set (handles_of xs)) ys)"
  by (induction seen xs rule: deps_earlier.induct) (simp_all add: insert_commute)

lemma deps_earlier_Cons:
  assumes "deps_earlier seen (e # es)"
  shows "\<exists>seen'. deps_earlier seen' es
           \<and> (\<forall>d\<in>seen'. d \<in> seen \<or> (\<exists>w kw ds. e = Add d w kw ds))"
  using assms by (cases e) auto

lemma deps_earlier_nth:
  assumes "deps_earlier seen es" "i < length es" "es ! i = Add h w kw ds" "d \<in> set ds"
  shows "d \<in> seen \<or> (\<exists>j<i. \<exists>w' kw' ds'. es ! j = Add d w' kw' ds')"
  using assms
proof (induction es arbitrary: seen i)
  case Nil
  then show ?case by simp
next
  case (Cons e es)
  show ?case
  proof (cases i)
    case 0
    with Cons.prems show ?thesis by auto
  next
    case (Suc i')
    from deps_earlier_Cons[OF Cons.prems(1)] obtain seen' where
      s: "deps_earlier seen' es" "\<forall>d\<in>seen'. d \<in> seen \<or> (\<exists>w kw ds. e = Add d w kw ds)"
      by blast
    from Cons.prems Suc have "i' < length es" "es ! i' = Add h w kw ds" by simp_all
    from Cons.IH[OF s(1) this \<open>d \<in> set ds\<close>]
    consider "d \<in> seen'" | j w' kw' ds' where "j < i'" "es ! j = Add d w' kw' ds'"
      by blast
    then show ?thesis
    proof cases
      case 1
      with s(2) have "d \<in> seen \<or> (\<exists>w kw ds. (e # es) ! 0 = Add d w kw ds)" by simp
      then show ?thesis using Suc by blast
    next
      case 2
      then have "Suc j < i" "(e # es) ! Suc j = Add d w' kw' ds'" using Suc by simp_all
      then show ?thesis by blast
    qed
  qed
qed

lemma handles_of_dot_events: "handles_of (dot_events b s2 lj files) = dot_handles b files"
  by (induction files arbitrary: b)
    (simp_all add: dot_events_Nil dot_events_Cons dot_handles_Nil dot_handles_Cons)

lemma deps_earlier_dot_events:
  assumes "s2 \<in> seen" "lj \<in> seen"
  shows "deps_earlier seen (dot_events b s2 lj files)"
  using assms
  by (induction files arbitrary: b seen) (simp_all add: dot_events_Nil dot_events_Cons)

lemma deps_earlier_range_events:
  "deps_earlier seen (range_events E conf project_id dbm project_resdir repo prosoda_conf
     project_conf no_report loglevel logfile b i range_id)"
  by (cases "get_release_range dbm project_id range_id")
    (auto simp add: range_events_def Let_def deps_earlier_append deps_earlier_dot_events
      handles_of_dot_events)

lemma deps_earlier_loop_events:
  "deps_earlier seen (loop_events E conf project_id dbm project_resdir repo prosoda_conf
     project_conf no_report loglevel logfile b i ids)"
  by (induction ids arbitrary: seen b i)
    (simp_all add: deps_earlier_append deps_earlier_range_events)

lemma deps_earlier_submit_events:
  "deps_earlier seen (submit_events E resdir gitdir prosoda_conf project_conf no_report loglevel
     logfile recreate b)"
  by (simp add: submit_events_def Let_def deps_earlier_loop_events split: prod.split)

lemma acyclic_decreasing: "acyclic {(h :: nat, d). d < h}"
proof -
  have "{(h :: nat, d). d < h} = less_than\<inverse>" by auto
  then show ?thesis by (simp add: wf_acyclic)
qed

subsection \<open>The handles joined\<close>

lemma cluster_and_report_handles_append:
  "cluster_and_report_handles (xs @ ys) =
     cluster_and_report_handles xs @ cluster_and_report_handles ys"
  by (induction xs rule: cluster_and_report_handles.induct) simp_all

lemma cluster_and_report_handles_dot_events:
  "cluster_and_report_handles (dot_events b s2 lj files) = []"
  by (induction files arbitrary: b) (simp_all add: dot_events_Nil dot_events_Cons)

lemma cluster_and_report_handles_range_events:
  "cluster_and_report_handles (range_events E conf project_id dbm project_resdir repo
     prosoda_conf project_conf no_report loglevel logfile b i range_id)
   = range_handles E project_id dbm project_resdir no_report b range_id"
  by (cases "get_release_range dbm project_id range_id")
    (simp add: range_events_def range_handles_def Let_def cluster_and_report_handles_append
      cluster_and_report_handles_dot_events)

lemma cluster_and_report_handles_loop_events:
  "cluster_and_report_handles (loop_events E conf project_id dbm project_resdir repo
     prosoda_conf project_conf no_report loglevel logfile b i ids)
   = loop_handles E project_id dbm project_resdir no_report b ids"
  by (induction ids arbitrary: b i)
    (simp_all add: cluster_and_report_handles_append cluster_and_report_handles_range_events)

lemma cluster_and_report_handles_submit_events:
  "cluster_and_report_handles (submit_events E resdir gitdir prosoda_conf project_conf no_report
     loglevel logfile recreate b)
   = joined_handles E resdir prosoda_conf project_conf no_report recreate b"
  by (simp add: submit_events_def joined_handles_def Let_def
      cluster_and_report_handles_loop_events split: prod.split)

lemma cluster_and_report_handles_setup_events:
  "cluster_and_report_handles (setup_events E prosoda_conf project_conf n_jobs) = []"
  by (simp add: setup_events_def Let_def)

lemma deps_earlier_setup_events:
  "deps_earlier seen (setup_events E prosoda_conf project_conf n_jobs)"
  by (simp add: setup_events_def Let_def)

lemma deps_earlier_final_events:
  "deps_earlier seen (final_events E resdir prosoda_conf project_conf loglevel logfile)"
  by (simp add: final_events_def Let_def)

subsection \<open>The calls of one range\<close>

lemma length_jobs_of_loop_events_Cons:
  "length (jobs_of (loop_events E conf project_id dbm project_resdir repo prosoda_conf
      project_conf no_report loglevel logfile b i (x # xs)))
   = range_size E project_id dbm project_resdir no_report x
     + length (jobs_of (loop_events E conf project_id dbm project_resdir repo prosoda_conf
         project_conf no_report loglevel logfile
         (b + range_size E project_id dbm project_resdir no_report x) (Suc i) xs))"
  by (simp add: jobs_of_append length_jobs_of_range_events)

lemma loop_events_append:
  "loop_events E conf project_id dbm project_resdir repo prosoda_conf project_conf no_report
     loglevel logfile b i (xs @ ys)
   = loop_events E conf project_id dbm project_resdir repo prosoda_conf project_conf no_report
       loglevel logfile b i xs
     @ loop_events E conf project_id dbm project_resdir repo prosoda_conf project_conf no_report
         loglevel logfile
         (b + length (jobs_of (loop_events E conf project_id dbm project_resdir repo prosoda_conf
                 project_conf no_report loglevel logfile b i xs)))
         (i + length xs) ys"
proof (induction xs arbitrary: b i)
  case Nil
  show ?case by simp
next
  case (Cons x xs)
  show ?case
    unfolding length_jobs_of_loop_events_Cons
    by (simp add: Cons.IH add.assoc)
qed

lemma loop_events_block:
  assumes "i < length ids"
  shows "\<exists>pre post.
           loop_events E conf project_id dbm project_resdir repo prosoda_conf project_conf
             no_report loglevel logfile b i0 ids
           = pre @ range_events E conf project_id dbm project_resdir repo prosoda_conf
                     project_conf no_report loglevel logfile (b + length (jobs_of pre)) (i0 + i)
                     (ids ! i)
             @ post"
proof -
  from assms have "ids = take i ids @ (ids ! i # drop (Suc i) ids)"
    by (simp add: id_take_nth_drop)
  then have "loop_events E conf project_id dbm project_resdir repo prosoda_conf project_conf
               no_report loglevel logfile b i0 ids
             = loop_events E conf project_id dbm project_resdir repo prosoda_conf project_conf
               no_report loglevel logfile b i0 (take i ids @ (ids ! i # drop (Suc i) ids))"
    by simp
  also have "\<dots> = loop_events E conf project_id dbm project_resdir repo prosoda_conf project_conf
               no_report loglevel logfile b i0 (take i ids)
             @ range_events E conf project_id dbm project_resdir repo prosoda_conf
                     project_conf no_report loglevel logfile
                     (b + length (jobs_of (loop_events E conf project_id dbm project_resdir repo
                        prosoda_conf project_conf no_report loglevel logfile b i0 (take i ids))))
                     (i0 + i) (ids ! i)
             @ loop_events E conf project_id dbm project_resdir repo prosoda_conf project_conf
                 no_report loglevel logfile
                 (b + length (jobs_of (loop_events E conf project_id dbm project_resdir repo
                        prosoda_conf project_conf no_report loglevel logfile b i0 (take i ids)))
                  + range_size E project_id dbm project_resdir no_report (ids ! i))
                 (Suc (i0 + i)) (drop (Suc i) ids)"
    unfolding loop_events_append using assms by (simp add: min_def)
  finally show ?thesis by blast
qed

lemma dot_events_zip:
  "dot_events b s2 lj files
   = map (\<lambda>(h, file). Add h (LayoutGraph file) None [s2, lj]) (zip (dot_handles b files) files)"
  by (induction files arbitrary: b)
    (simp_all add: dot_events_Nil dot_events_Cons dot_handles_Nil dot_handles_Cons)

lemma length_dot_handles: "length (dot_handles b files) = length files"
  by (simp add: dot_handles_def)

lemma calls_block:
  assumes accepted:
    "fst (project_analyse E resdir gitdir prosoda_conf project_conf no_report loglevel logfile
            recreate n_jobs st0) \<noteq> Inl ConfigurationError"
  assumes ranges:
    "fst (project_setup E (Configuration_load E prosoda_conf project_conf) recreate s)
       = Inr (project_id, dbm, ids)"
  assumes i: "i < length ids"
  shows "\<exists>pre post b.
           calls_made (project_analyse E resdir gitdir prosoda_conf project_conf no_report
             loglevel logfile recreate n_jobs) st0
           = pre @ range_events E (Configuration_load E prosoda_conf project_conf) project_id dbm
                     (pathjoin E [resdir,
                        conf_project (Configuration_load E prosoda_conf project_conf),
                        conf_tagging (Configuration_load E prosoda_conf project_conf)])
                     (pathjoin E [gitdir,
                        conf_repo (Configuration_load E prosoda_conf project_conf), ''.git''])
                     prosoda_conf project_conf no_report loglevel logfile b i (ids ! i)
             @ post
           \<and> (\<forall>e\<in>set pre. case e of Join hs r \<Rightarrow> False | _ \<Rightarrow> True)"
proof -
  let ?conf = "Configuration_load E prosoda_conf project_conf"
  let ?set = "setup_events E prosoda_conf project_conf n_jobs"
  let ?fin = "final_events E resdir prosoda_conf project_conf loglevel logfile"
  let ?join = "Join (joined_handles E resdir prosoda_conf project_conf no_report recreate
                        (length (job_list (pool st0))))
                  (fst (join_result E resdir gitdir prosoda_conf project_conf no_report loglevel
                    logfile recreate n_jobs (pool st0)))"
  from ranges have r: "release_ranges E ?conf recreate = (project_id, dbm, ids)"
    by (simp add: project_setup_result)
  from loop_events_block[OF i, of E ?conf project_id dbm
      "pathjoin E [resdir, conf_project ?conf, conf_tagging ?conf]"
      "pathjoin E [gitdir, conf_repo ?conf, ''.git'']" prosoda_conf project_conf no_report
      loglevel logfile "length (job_list (pool st0))" 0]
  obtain pre post where
    l: "loop_events E ?conf project_id dbm
          (pathjoin E [resdir, conf_project ?conf, conf_tagging ?conf])
          (pathjoin E [gitdir, conf_repo ?conf, ''.git''])
          prosoda_conf project_conf no_report loglevel logfile (length (job_list (pool st0))) 0 ids
        = pre @ range_events E ?conf project_id dbm
                  (pathjoin E [resdir, conf_project ?conf, conf_tagging ?conf])
                  (pathjoin E [gitdir, conf_repo ?conf, ''.git''])
                  prosoda_conf project_conf no_report loglevel logfile
                  (length (job_list (pool st0)) + length (jobs_of pre)) i (ids ! i)
          @ post"
    by auto
  have sub: "submit_events E resdir gitdir prosoda_conf project_conf no_report loglevel logfile
               recreate (length (job_list (pool st0)))
             = pre @ range_events E ?conf project_id dbm
                  (pathjoin E [resdir, conf_project ?conf, conf_tagging ?conf])
                  (pathjoin E [gitdir, conf_repo ?conf, ''.git''])
                  prosoda_conf project_conf no_report loglevel logfile
                  (length (job_list (pool st0)) + length (jobs_of pre)) i (ids ! i)
               @ post"
    by (simp add: submit_events_def Let_def r l)
  have "\<forall>e\<in>set pre. submission E e"
    using submission_submit_events[of _ E resdir gitdir prosoda_conf project_conf no_report
        loglevel logfile recreate "length (job_list (pool st0))"]
    unfolding sub by auto
  then have pre: "\<forall>e\<in>set (?set @ pre). case e of Join hs r \<Rightarrow> False | _ \<Rightarrow> True"
    using set_setup_events[of E prosoda_conf project_conf n_jobs]
    by (auto simp add: submission_def split: event.splits)
  have "calls_made (project_analyse E resdir gitdir prosoda_conf project_conf no_report
             loglevel logfile recreate n_jobs) st0
        = (?set @ pre) @ range_events E ?conf project_id dbm
                  (pathjoin E [resdir, conf_project ?conf, conf_tagging ?conf])
                  (pathjoin E [gitdir, conf_repo ?conf, ''.git''])
                  prosoda_conf project_conf no_report loglevel logfile
                  (length (job_list (pool st0)) + length (jobs_of pre)) i (ids ! i)
          @ (post @ [?join] @ ?fin)"
    unfolding calls_accepted[OF accepted] sub by simp
  with pre show ?thesis by blast
qed

lemma demo_accepted:
  "fst (project_analyse demo_env ''res'' ''git'' ''prosoda.conf'' ''qemu.conf'' False ''info''
          None False 2 fresh) \<noteq> Inl ConfigurationError"
  by (simp add: project_analyse_result_cases fresh_def dispatch_started_def)

lemma demo_ranges:
  "fst (project_setup demo_env (Configuration_load demo_env ''prosoda.conf'' ''qemu.conf'')
          False fresh) = Inr (1, demo_dbm, [1, 2])"
  by (simp add: project_setup_result release_ranges_def demo_env_def demo_conf_def demo_dbm_def)

subsection \<open>The loop without reports\<close>

lemma range_events_no_report:
  assumes "get_release_range dbm project_id range_id = (start_rev, end_rev, rc_rev)"
  shows "range_events E conf project_id dbm project_resdir repo prosoda_conf project_conf True
           loglevel logfile b i range_id
         = [Add b (DoProjectAnalysis conf start_rev end_rev rc_rev
              (pathjoin E [project_resdir, start_rev @ ''-'' @ end_rev]) repo True True) None [],
            Add (b + 1) (Loginfo (''  -> Analysing revision range '' @ start_rev @ ''..'' @ end_rev
              @ '': Detecting clusters...'')) None [b],
            Add (b + 2)
              (ExecuteCommand
                (resource_filename E name_of_module ''R/cluster/persons.r''
                 # [''--loglevel'', loglevel] @ logfile_args logfile (''.R.r'' @ str_nat i)
                   @ [''-c'', prosoda_conf, ''-p'', project_conf,
                      pathjoin E [project_resdir, start_rev @ ''-'' @ end_rev],
                      str_int range_id]))
              (Some [(''direct_io'', KBool True),
                     (''cwd'', KStr (fst (pathsplit E
                        (resource_filename E name_of_module ''R/cluster/persons.r''))))]) [b]]"
  by (simp add: range_events_def assms Let_def)

lemma filter_is_add_range_events_no_report:
  "filter is_add (range_events E conf project_id dbm project_resdir repo prosoda_conf
     project_conf True loglevel logfile b i range_id)
   = range_events E conf project_id dbm project_resdir repo prosoda_conf project_conf True
       loglevel logfile b i range_id"
  by (cases "get_release_range dbm project_id range_id") (simp add: range_events_no_report)

lemma range_size_no_report: "range_size E project_id dbm project_resdir True range_id = 3"
  by (cases "get_release_range dbm project_id range_id") (simp add: range_size_def)

lemma upt_Suc_shift: "[0..<Suc n] = 0 # map Suc [0..<n]"
  by (simp add: upt_conv_Cons map_Suc_upt del: upt_Suc)

lemma loop_events_no_report:
  "loop_events E conf project_id dbm project_resdir repo prosoda_conf project_conf True
     loglevel logfile b i ids
   = concat (map (\<lambda>k. range_events E conf project_id dbm project_resdir repo prosoda_conf
                          project_conf True loglevel logfile (b + 3 * k) (i + k) (ids ! k))
               [0..<length ids])"
proof (induction ids arbitrary: b i)
  case Nil
  show ?case by simp
next
  case (Cons x xs)
  show ?case
    by (simp add: Cons.IH range_size_no_report upt_Suc_shift comp_def add.assoc add.commute
        add.left_commute del: upt_Suc)
qed

lemma loop_handles_no_report:
  "loop_handles E project_id dbm project_resdir True b ids
   = map (\<lambda>k. b + 3 * k + 2) [0..<length ids]"
proof (induction ids arbitrary: b)
  case Nil
  show ?case by simp
next
  case (Cons x xs)
  have "range_handles E project_id dbm project_resdir True b x = [b + 2]"
    by (cases "get_release_range dbm project_id x") (simp add: range_handles_def)
  then show ?case
    by (simp add: Cons.IH range_size_no_report upt_Suc_shift comp_def add.assoc add.commute
        add.left_commute del: upt_Suc)
qed

lemma filter_is_add_concat_no_report:
  "filter is_add (concat (map (\<lambda>k. range_events E conf project_id dbm project_resdir repo
        prosoda_conf project_conf True loglevel logfile (f k) (g k) (h k)) ks))
   = concat (map (\<lambda>k. range_events E conf project_id dbm project_resdir repo
        prosoda_conf project_conf True loglevel logfile (f k) (g k) (h k)) ks)"
  by (induction ks) (simp_all add: filter_is_add_range_events_no_report)

lemma filter_is_add_setup_events:
  "filter is_add (setup_events E prosoda_conf project_conf n_jobs) = []"
  by (simp add: setup_events_def Let_def)

lemma filter_is_add_final_events:
  "filter is_add (final_events E resdir prosoda_conf project_conf loglevel logfile) = []"
  by (simp add: final_events_def Let_def)

subsection \<open>mailinglist_analyse\<close>

lemma analyse_mailinglists_closed:
  "analyse_mailinglists E exe cwd cmd logfile mls st =
     (if ml_ok E exe cwd cmd logfile mls then Inr () else Inl JobFailure,
      submitted (ml_events E exe cwd cmd logfile mls) st)"
proof (induction mls arbitrary: st)
  case Nil
  show ?case by (simp add: ret_def submitted_Nil)
next
  case (Cons x mls)
  obtain i ml where x: "x = (i, ml)" by (cases x)
  show ?case
    unfolding x
    by (simp add: then_do_def log_info_eq call_execute_command_eq execute_command_def Let_def
        Cons.IH submitted_append)
qed

lemma ml_events_calls:
  assumes "CallExecuteCommand c d w \<in> set (ml_events E exe cwd cmd logfile mls)"
  shows "c \<noteq> [] \<and> hd c = exe \<and> d \<and> w = cwd"
  using assms
  by (induction E exe cwd cmd logfile mls rule: ml_events.induct) (auto split: if_splits)

lemma ml_ok_iff:
  "ml_ok E exe cwd cmd logfile mls \<longleftrightarrow>
     (\<forall>c d w. CallExecuteCommand c d w \<in> set (ml_events E exe cwd cmd logfile mls)
        \<longrightarrow> exit_status E c w = 0)"
  by (induction E exe cwd cmd logfile mls rule: ml_events.induct) auto

lemma ml_failed_last:
  assumes "\<not> ml_ok E exe cwd cmd logfile mls"
  shows "\<exists>c. ml_events E exe cwd cmd logfile mls \<noteq> []
           \<and> last (ml_events E exe cwd cmd logfile mls) = CallExecuteCommand c True cwd
           \<and> exit_status E c cwd \<noteq> 0"
  using assms
proof (induction E exe cwd cmd logfile mls rule: ml_events.induct)
  case (1 E exe cwd cmd logfile)
  then show ?case by simp
next
  case (2 E exe cwd cmd logfile i ml rest)
  let ?c = "[exe] @ logfile_args logfile (''.R.ml.'' @ str_nat i) @ cmd @ [ml_name ml]"
  show ?case
  proof (cases "exit_status E ?c cwd = 0")
    case True
    with 2 obtain c where "ml_events E exe cwd cmd logfile rest \<noteq> []"
      "last (ml_events E exe cwd cmd logfile rest) = CallExecuteCommand c True cwd"
      "exit_status E c cwd \<noteq> 0"
      by auto
    with True show ?thesis by auto
  next
    case False
    then show ?thesis by auto
  qed
qed

lemma mailinglist_analyse_closed:
  fixes E resdir mldir prosoda_conf project_conf loglevel logfile n st
  defines "exe \<equiv> resource_filename E name_of_module ''R/ml/batch.r''"
  defines "mls \<equiv> enumerate 0 (conf_mailinglists (Configuration_load E prosoda_conf project_conf))"
  defines "cmd \<equiv> ml_cmd E resdir mldir prosoda_conf project_conf loglevel n"
  shows "mailinglist_analyse E resdir mldir prosoda_conf project_conf loglevel logfile n st =
           (if ml_ok E exe (fst (pathsplit E exe)) cmd logfile mls then Inr () else Inl JobFailure,
            submitted (ml_events E exe (fst (pathsplit E exe)) cmd logfile mls
                       @ (if ml_ok E exe (fst (pathsplit E exe)) cmd logfile mls
                          then [LogInfo ''=> Prosoda mailing list analysis complete!''] else []))
              st)"
proof -
  obtain cwd x where s: "pathsplit E (resource_filename E name_of_module ''R/ml/batch.r'') = (cwd, x)"
    by (cases "pathsplit E (resource_filename E name_of_module ''R/ml/batch.r'')") auto
  show ?thesis
    unfolding mailinglist_analyse_def exe_def mls_def cmd_def ml_cmd_def
    by (simp add: Let_def s then_do_def analyse_mailinglists_closed log_info_eq submitted_append)
qed

lemma project_analyse_result:
  assumes "fst (project_analyse E resdir gitdir prosoda_conf project_conf no_report loglevel
                  logfile recreate n_jobs st0) \<noteq> Inl ConfigurationError"
  shows "fst (project_analyse E resdir gitdir prosoda_conf project_conf no_report loglevel
                logfile recreate n_jobs st0)
         = execute_command (exit_status E)
             (ts_cmd E prosoda_conf project_conf loglevel logfile
               (pathjoin E [resdir, conf_project (Configuration_load E prosoda_conf project_conf),
                  conf_tagging (Configuration_load E prosoda_conf project_conf)])) True (ts_cwd E)"
proof -
  from assms have "0 < n_jobs" "\<not> dispatch_started (pool st0)"
    unfolding project_analyse_result_cases by auto
  from project_analyse_closed[OF this] show ?thesis by simp
qed

lemma final_events_calls:
  "CallExecuteCommand c d w \<in> set (final_events E resdir prosoda_conf project_conf loglevel logfile)
   \<longleftrightarrow> c = ts_cmd E prosoda_conf project_conf loglevel logfile
             (pathjoin E [resdir, conf_project (Configuration_load E prosoda_conf project_conf),
                conf_tagging (Configuration_load E prosoda_conf project_conf)])
       \<and> d \<and> w = ts_cwd E"
  by (auto simp add: final_events_def Let_def)

lemma calls_accepted_calls:
  assumes "fst (project_analyse E resdir gitdir prosoda_conf project_conf no_report loglevel
                  logfile recreate n_jobs st0) \<noteq> Inl ConfigurationError"
  shows "CallExecuteCommand c d w
           \<in> set (calls_made (project_analyse E resdir gitdir prosoda_conf project_conf no_report
                    loglevel logfile recreate n_jobs) st0)
         \<longleftrightarrow> c = ts_cmd E prosoda_conf project_conf loglevel logfile
             (pathjoin E [resdir, conf_project (Configuration_load E prosoda_conf project_conf),
                conf_tagging (Configuration_load E prosoda_conf project_conf)])
             \<and> d \<and> w = ts_cwd E"
proof -
  have "CallExecuteCommand c d w \<notin> set (setup_events E prosoda_conf project_conf n_jobs)"
    using set_setup_events[of E prosoda_conf project_conf n_jobs] by auto
  moreover have "CallExecuteCommand c d w
      \<notin> set (submit_events E resdir gitdir prosoda_conf project_conf no_report loglevel logfile
                recreate (length (job_list (pool st0))))"
    using submission_submit_events not_submission_simps(3) by blast
  ultimately show ?thesis
    unfolding calls_accepted[OF assms] by (simp add: final_events_calls)
qed

lemma demo_ml_run:
  "mailinglist_analyse demo_env_failing ''res'' ''ml'' ''prosoda.conf'' ''qemu.conf'' ''info''
     None 4 fresh
   = (Inl JobFailure,
      \<lparr>pool = pool fresh,
       trace =
        [LogInfo (''=> Analysing mailing list '' @ quote @ ''devel'' @ quote @ '' of type ''
           @ quote @ ''dev'' @ quote),
         CallExecuteCommand [''/pkg/R/ml/batch.r'', ''--loglevel'', ''info'', ''-c'',
           ''prosoda.conf'', ''-p'', ''qemu.conf'', ''-j'', ''4'', ''res/qemu/ml'', ''ml'',
           ''devel''] True ''/pkg/R/ml'',
         LogInfo (''=> Analysing mailing list '' @ quote @ ''user'' @ quote @ '' of type ''
           @ quote @ ''user'' @ quote),
         CallExecuteCommand [''/pkg/R/ml/batch.r'', ''--loglevel'', ''info'', ''-c'',
           ''prosoda.conf'', ''-p'', ''qemu.conf'', ''-j'', ''4'', ''res/qemu/ml'', ''ml'',
           ''user''] True ''/pkg/R/ml'']\<rparr>)"
  by (simp add: mailinglist_analyse_closed submitted_def ml_cmd_def demo_env_failing_def
      demo_env_def demo_conf_def fresh_def name_of_module_def logfile_args_def str_int_def
      str_nat.simps digit_char_def enumerate_eq_zip upt_conv_Cons del: upt_Suc)

subsection \<open>The ready set and the jobs a join waits for\<close>

lemma deps_of_mono: "S \<subseteq> T \<Longrightarrow> deps_of tbl S \<subseteq> deps_of tbl T"
  by (auto simp add: deps_of_def)

lemma reach_in_closed:
  assumes "S \<subseteq> T" "deps_of tbl T \<subseteq> T"
  shows "reach tbl n S \<subseteq> T"
  using assms
proof (induction n arbitrary: S)
  case 0
  then show ?case by simp
next
  case (Suc n)
  from deps_of_mono[OF Suc.prems(1)] Suc.prems have "S \<union> deps_of tbl S \<subseteq> T" by blast
  from Suc.IH[OF this Suc.prems(2)] show ?case by simp
qed

lemma reach_extensive: "S \<subseteq> reach tbl n S"
proof (induction n arbitrary: S)
  case 0
  show ?case by simp
next
  case (Suc n)
  have "S \<subseteq> S \<union> deps_of tbl S" by blast
  also have "\<dots> \<subseteq> reach tbl n (S \<union> deps_of tbl S)" by (rule Suc.IH)
  finally show ?case by simp
qed

lemma needed_subset:
  assumes "set hs \<subseteq> T" "deps_of tbl T \<subseteq> T"
  shows "needed tbl hs \<subseteq> T"
  unfolding needed_def using assms by (rule reach_in_closed)

lemma needed_extensive: "set hs \<subseteq> needed tbl hs"
  unfolding needed_def by (rule reach_extensive)

lemma nth_middle:
  assumes "k < length xs"
  shows "(pre @ xs @ post) ! (length pre + k) = xs ! k"
  using assms by (simp add: nth_append)

lemma in_ready_set:
  "h \<in> set (ready_set p) \<longleftrightarrow>
     h < length (job_list p) \<and> state (job_list p ! h) = Pending
     \<and> (\<forall>d\<in>set (dependencies (job_list p ! h)).
           d < length (job_list p) \<and> state (job_list p ! d) = Succeeded)"
  by (auto simp add: ready_set_def list_all_iff)

subsection \<open>The state after the loop\<close>

lemma calls_made_loop:
  "calls_made (analyse_ranges E conf project_id dbm project_resdir repo prosoda_conf
       project_conf no_report loglevel logfile js (enumerate i ids)) st
   = loop_events E conf project_id dbm project_resdir repo prosoda_conf project_conf no_report
       loglevel logfile (length (job_list (pool st))) i ids"
  by (simp add: calls_made_def analyse_ranges_ok submitted_def)

lemma pool_after_loop:
  "job_list (pool (snd (analyse_ranges E conf project_id dbm project_resdir repo prosoda_conf
       project_conf no_report loglevel logfile js (enumerate i ids) st)))
   = job_list (pool st)
     @ jobs_of (loop_events E conf project_id dbm project_resdir repo prosoda_conf project_conf
         no_report loglevel logfile (length (job_list (pool st))) i ids)"
  by (simp add: analyse_ranges_ok submitted_def)

lemma no_join_in_loop_events:
  "Join hs r \<notin> set (loop_events E conf project_id dbm project_resdir repo prosoda_conf
     project_conf no_report loglevel logfile b i ids)"
  using submission_loop_events not_submission_simps(2) by blast

lemma loop_range_submissions:
  fixes E conf project_id dbm project_resdir repo prosoda_conf project_conf loglevel logfile ids
    st i start_rev end_rev rc_rev
  defines "loop \<equiv> analyse_ranges E conf project_id dbm project_resdir repo prosoda_conf
                     project_conf False loglevel logfile [] (enumerate 0 ids)"
  defines "range_resdir \<equiv> pathjoin E [project_resdir, start_rev @ ''-'' @ end_rev]"
  defines "files \<equiv> glob E (pathjoin E [range_resdir, ''*.dot''])"
  defines "p \<equiv> pool (snd (loop st))"
  defines "tbl \<equiv> map dependencies (job_list p)"
  assumes i: "i < length ids"
  assumes rr: "get_release_range dbm project_id (ids ! i) = (start_rev, end_rev, rc_rev)"
  shows "\<exists>pre post s1 l1 s2 lj rep dots msg1 msg2 cmd kw js.
           fst (loop st) = Inr js
         \<and> calls_made loop st = pre
             @ [Add s1 (DoProjectAnalysis conf start_rev end_rev rc_rev range_resdir repo True True)
                  None [],
                Add l1 (Loginfo msg1) None [s1],
                Add s2 (ExecuteCommand cmd) (Some kw) [s1],
                Glob (pathjoin E [range_resdir, ''*.dot'']),
                Add lj (Loginfo msg2) None [s2]]
             @ map (\<lambda>(h, f). Add h (LayoutGraph f) None [s2, lj]) (zip dots files)
             @ [Add rep (GenerateReport start_rev end_rev range_resdir) None dots]
             @ post
         \<and> length dots = length files
         \<and> (\<forall>hs r. Join hs r \<notin> set (calls_made loop st))
         \<and> state (job_list p ! s1) = Pending
         \<and> state (job_list p ! s2) = Pending
         \<and> (files = [] \<longrightarrow>
              dependencies (job_list p ! rep) = []
              \<and> rep \<in> set (ready_set p)
              \<and> s2 \<notin> set (ready_set p)
              \<and> needed tbl [rep] = {rep}
              \<and> rep \<notin> needed tbl [s1]
              \<and> rep \<notin> needed tbl [s2])"
proof -
  let ?b0 = "length (job_list (pool st))"
  let ?L = "loop_events E conf project_id dbm project_resdir repo prosoda_conf project_conf False
              loglevel logfile ?b0 0 ids"
  from loop_events_block[OF i, of E conf project_id dbm project_resdir repo prosoda_conf
      project_conf False loglevel logfile ?b0 0]
  obtain pre post where
    L: "?L = pre @ range_events E conf project_id dbm project_resdir repo prosoda_conf
                    project_conf False loglevel logfile (?b0 + length (jobs_of pre)) i (ids ! i)
             @ post"
    by auto
  define b where "b = ?b0 + length (jobs_of pre)"
  define cmd where "cmd = [resource_filename E name_of_module ''R/cluster/persons.r'',
                ''--loglevel'', loglevel] @ logfile_args logfile (''.R.r'' @ str_nat i)
                @ [''-c'', prosoda_conf, ''-p'', project_conf, range_resdir, str_int (ids ! i)]"
  define kw where "kw = [(''direct_io'', KBool True),
     (''cwd'', KStr (fst (pathsplit E (resource_filename E name_of_module ''R/cluster/persons.r''))))]"
  define msg1 where "msg1 = ''  -> Analysing revision range '' @ start_rev @ ''..'' @ end_rev
                     @ '': Detecting clusters...''"
  define msg2 where "msg2 = ''  -> Analysing revision range '' @ start_rev @ ''..'' @ end_rev
                     @ '': Generating Reports...''"
  define w1 where "w1 = DoProjectAnalysis conf start_rev end_rev rc_rev range_resdir repo True True"
  define w5 where "w5 = GenerateReport start_rev end_rev range_resdir"
  define dots where "dots = dot_handles (b + 4) files"
  define rep where "rep = b + 4 + length files"
  let ?R = "[Add b w1 None [], Add (b + 1) (Loginfo msg1) None [b],
             Add (b + 2) (ExecuteCommand cmd) (Some kw) [b],
             Glob (pathjoin E [range_resdir, ''*.dot'']),
             Add (b + 3) (Loginfo msg2) None [b + 2]]
            @ map (\<lambda>(h, f). Add h (LayoutGraph f) None [b + 2, b + 3]) (zip dots files)
            @ [Add rep w5 None dots]"
  have R: "range_events E conf project_id dbm project_resdir repo prosoda_conf
             project_conf False loglevel logfile b i (ids ! i) = ?R"
    by (simp add: range_events_def rr Let_def dot_events_zip range_resdir_def files_def cmd_def
        kw_def msg1_def msg2_def w1_def w5_def dots_def rep_def)
  have calls: "calls_made loop st = pre @ ?R @ post"
    unfolding loop_def calls_made_loop L b_def[symmetric] R by simp
  have res: "\<exists>js. fst (loop st) = Inr js"
    unfolding loop_def by (simp add: analyse_ranges_ok)
  have nojoin: "Join hs r \<notin> set (calls_made loop st)" for hs r
    unfolding loop_def calls_made_loop by (rule no_join_in_loop_events)
  let ?A = "job_list (pool st) @ jobs_of pre"
  let ?X = "jobs_of ?R"
  have jl: "job_list p = ?A @ ?X @ jobs_of post"
    unfolding p_def loop_def pool_after_loop L b_def[symmetric] R
    by (simp add: jobs_of_append)
  have lenA: "length ?A = b" by (simp add: b_def)
  have nth: "job_list p ! (b + k) = ?X ! k" if "k < length ?X" for k
    unfolding jl using nth_middle[OF that, of ?A "jobs_of post"] lenA by simp
  have lenX: "4 < length ?X" by (simp add: jobs_of_append)
  have j1: "job_list p ! b = \<lparr>work = w1, kwargs = None, dependencies = [], state = Pending\<rparr>"
    using nth[of 0] lenX by simp
  have j3: "job_list p ! (b + 2)
            = \<lparr>work = ExecuteCommand cmd, kwargs = Some kw, dependencies = [b], state = Pending\<rparr>"
    using nth[of 2] lenX by simp
  have s1: "state (job_list p ! b) = Pending" using j1 by simp
  have s2: "state (job_list p ! (b + 2)) = Pending" using j3 by simp
  have ljl: "length (job_list p) = b + length ?X + length (jobs_of post)"
    unfolding jl using lenA by (simp only: length_append)
  have len: "b + 2 < length (job_list p)" "b < length (job_list p)"
    using ljl lenX by arith+
  have empty: "dependencies (job_list p ! rep) = []
              \<and> rep \<in> set (ready_set p)
              \<and> b + 2 \<notin> set (ready_set p)
              \<and> needed tbl [rep] = {rep}
              \<and> rep \<notin> needed tbl [b]
              \<and> rep \<notin> needed tbl [b + 2]"
    if f: "files = []"
  proof -
    have X: "?X = [\<lparr>work = w1, kwargs = None, dependencies = [], state = Pending\<rparr>,
                   \<lparr>work = Loginfo msg1, kwargs = None, dependencies = [b], state = Pending\<rparr>,
                   \<lparr>work = ExecuteCommand cmd, kwargs = Some kw, dependencies = [b],
                     state = Pending\<rparr>,
                   \<lparr>work = Loginfo msg2, kwargs = None, dependencies = [b + 2], state = Pending\<rparr>,
                   \<lparr>work = w5, kwargs = None, dependencies = [], state = Pending\<rparr>]"
      by (simp add: f dots_def dot_handles_Nil)
    have r4: "rep = b + 4" by (simp add: rep_def f)
    have j5: "job_list p ! rep = \<lparr>work = w5, kwargs = None, dependencies = [], state = Pending\<rparr>"
      unfolding r4 using nth[of 4] lenX unfolding X by simp
    have lr: "rep < length (job_list p)"
      using ljl lenX r4 by arith
    have ltbl: "length tbl = length (job_list p)" by (simp add: tbl_def)
    have t_rep: "tbl ! rep = []" unfolding tbl_def using lr j5 by simp
    have t_s1: "tbl ! b = []" unfolding tbl_def using len j1 by simp
    have t_s2: "tbl ! (b + 2) = [b]" unfolding tbl_def using len j3 by simp
    have a: "dependencies (job_list p ! rep) = []" using j5 by simp
    have b1: "rep \<in> set (ready_set p)"
      unfolding in_ready_set using lr j5 by simp
    have c: "b + 2 \<notin> set (ready_set p)"
      unfolding in_ready_set using j3 j1 by simp
    have "needed tbl [rep] \<subseteq> {rep}"
      by (rule needed_subset) (simp_all add: deps_of_def t_rep)
    moreover have "{rep} \<subseteq> needed tbl [rep]"
      using needed_extensive[of "[rep]" tbl] by simp
    ultimately have d: "needed tbl [rep] = {rep}" by blast
    have "needed tbl [b] \<subseteq> {b}"
      by (rule needed_subset) (simp_all add: deps_of_def t_s1)
    then have e: "rep \<notin> needed tbl [b]" using r4 by auto
    have "deps_of tbl {b + 2, b} \<subseteq> {b + 2, b}"
      using t_s1 t_s2 by (auto simp add: deps_of_def split: if_splits)
    then have "needed tbl [b + 2] \<subseteq> {b + 2, b}"
      by (intro needed_subset) simp_all
    then have g: "rep \<notin> needed tbl [b + 2]" using r4 by auto
    from a b1 c d e g show ?thesis by blast
  qed
  have ld: "length dots = length files" by (simp add: dots_def length_dot_handles)
  from res obtain js where js: "fst (loop st) = Inr js" by blast
  have "fst (loop st) = Inr js
         \<and> calls_made loop st = pre
             @ [Add b (DoProjectAnalysis conf start_rev end_rev rc_rev range_resdir repo True True)
                  None [],
                Add (b + 1) (Loginfo msg1) None [b],
                Add (b + 2) (ExecuteCommand cmd) (Some kw) [b],
                Glob (pathjoin E [range_resdir, ''*.dot'']),
                Add (b + 3) (Loginfo msg2) None [b + 2]]
             @ map (\<lambda>(h, f). Add h (LayoutGraph f) None [b + 2, b + 3]) (zip dots files)
             @ [Add rep (GenerateReport start_rev end_rev range_resdir) None dots]
             @ post
         \<and> length dots = length files
         \<and> (\<forall>hs r. Join hs r \<notin> set (calls_made loop st))
         \<and> state (job_list p ! b) = Pending
         \<and> state (job_list p ! (b + 2)) = Pending
         \<and> (files = [] \<longrightarrow>
              dependencies (job_list p ! rep) = []
              \<and> rep \<in> set (ready_set p)
              \<and> b + 2 \<notin> set (ready_set p)
              \<and> needed tbl [rep] = {rep}
              \<and> rep \<notin> needed tbl [b]
              \<and> rep \<notin> needed tbl [b + 2])"
    using js calls ld nojoin s1 s2 empty unfolding w1_def w5_def by simp
  then show ?thesis by blast
qed

lemma submissions_are_the_loop:
  assumes accepted:
    "fst (project_analyse E resdir gitdir prosoda_conf project_conf no_report loglevel logfile
            recreate n_jobs st0) \<noteq> Inl ConfigurationError"
  assumes ranges:
    "fst (project_setup E (Configuration_load E prosoda_conf project_conf) recreate s)
       = Inr (project_id, dbm, ids)"
  shows "\<exists>a hs out z.
           calls_made (project_analyse E resdir gitdir prosoda_conf project_conf no_report
             loglevel logfile recreate n_jobs) st0
           = a @ calls_made (analyse_ranges E (Configuration_load E prosoda_conf project_conf)
                   project_id dbm
                   (pathjoin E [resdir,
                      conf_project (Configuration_load E prosoda_conf project_conf),
                      conf_tagging (Configuration_load E prosoda_conf project_conf)])
                   (pathjoin E [gitdir,
                      conf_repo (Configuration_load E prosoda_conf project_conf), ''.git''])
                   prosoda_conf project_conf no_report loglevel logfile []
                   (enumerate 0 ids)) st0
             @ Join hs out # z
         \<and> (\<forall>e\<in>set a. case e of Add h w kw ds \<Rightarrow> False | Join hs r \<Rightarrow> False | _ \<Rightarrow> True)"
proof -
  let ?conf = "Configuration_load E prosoda_conf project_conf"
  let ?set = "setup_events E prosoda_conf project_conf n_jobs"
  from ranges have r: "release_ranges E ?conf recreate = (project_id, dbm, ids)"
    by (simp add: project_setup_result)
  have sub: "submit_events E resdir gitdir prosoda_conf project_conf no_report loglevel logfile
               recreate (length (job_list (pool st0)))
             = calls_made (analyse_ranges E ?conf project_id dbm
                   (pathjoin E [resdir, conf_project ?conf, conf_tagging ?conf])
                   (pathjoin E [gitdir, conf_repo ?conf, ''.git''])
                   prosoda_conf project_conf no_report loglevel logfile []
                   (enumerate 0 ids)) st0"
    unfolding calls_made_loop by (simp add: submit_events_def Let_def r)
  have a: "\<forall>e\<in>set ?set. case e of Add h w kw ds \<Rightarrow> False | Join hs r \<Rightarrow> False | _ \<Rightarrow> True"
    using set_setup_events[of E prosoda_conf project_conf n_jobs] by auto
  have "calls_made (project_analyse E resdir gitdir prosoda_conf project_conf no_report
             loglevel logfile recreate n_jobs) st0
        = ?set @ calls_made (analyse_ranges E ?conf project_id dbm
                   (pathjoin E [resdir, conf_project ?conf, conf_tagging ?conf])
                   (pathjoin E [gitdir, conf_repo ?conf, ''.git''])
                   prosoda_conf project_conf no_report loglevel logfile []
                   (enumerate 0 ids)) st0
          @ Join (joined_handles E resdir prosoda_conf project_conf no_report recreate
                        (length (job_list (pool st0))))
                  (fst (join_result E resdir gitdir prosoda_conf project_conf no_report loglevel
                    logfile recreate n_jobs (pool st0)))
            # final_events E resdir prosoda_conf project_conf loglevel logfile"
    unfolding calls_accepted[OF accepted] sub by simp
  with a show ?thesis by blast
qed

section \<open>The claims\<close>

subsection \<open>Claim C1\<close>

text \<open>
  Claim C1. For every revision range that a run of \<^verbatim>\<open>project_analyse\<close> processes, the
  calls of the run hold, next to each other, the submissions of that range: the
  commit-analysis job \<^verbatim>\<open>doProjectAnalysis\<close> without dependencies, a log job and the
  cluster-detection job (\<^verbatim>\<open>execute_command\<close> of \<^verbatim>\<open>persons.r\<close>, ending in the range id),
  both depending on the commit-analysis job; and, unless reports are switched off, the
  glob for the \<^verbatim>\<open>.dot\<close> files, a log job, one \<^verbatim>\<open>layout_graph\<close> job per file found, each
  depending on the cluster-detection job, and the \<^verbatim>\<open>generate_report\<close> job, whose
  dependencies are exactly the \<^verbatim>\<open>layout_graph\<close> jobs.
\<close>

theorem C1_jobs_of_a_range_form_the_chain:
  fixes E resdir gitdir prosoda_conf project_conf no_report loglevel logfile recreate n_jobs st0
    s project_id dbm ids i start_rev end_rev rc_rev
  defines "calls \<equiv> calls_made (project_analyse E resdir gitdir prosoda_conf project_conf
                        no_report loglevel logfile recreate n_jobs) st0"
  defines "conf \<equiv> Configuration_load E prosoda_conf project_conf"
  defines "repo \<equiv> pathjoin E [gitdir, conf_repo conf, ''.git'']"
  defines "range_resdir \<equiv> pathjoin E [pathjoin E [resdir, conf_project conf, conf_tagging conf],
                                       start_rev @ ''-'' @ end_rev]"
  defines "files \<equiv> glob E (pathjoin E [range_resdir, ''*.dot''])"
  defines "exe \<equiv> resource_filename E name_of_module ''R/cluster/persons.r''"
  assumes accepted:
    "fst (project_analyse E resdir gitdir prosoda_conf project_conf no_report loglevel logfile
            recreate n_jobs st0) \<noteq> Inl ConfigurationError"
  assumes ranges: "fst (project_setup E conf recreate s) = Inr (project_id, dbm, ids)"
  assumes i: "i < length ids"
  assumes rr: "get_release_range dbm project_id (ids ! i) = (start_rev, end_rev, rc_rev)"
  shows "\<exists>pre post s1 l1 s2 lj rep dots msg1 msg2 cmd kw.
           calls = pre
             @ [Add s1 (DoProjectAnalysis conf start_rev end_rev rc_rev range_resdir repo True True)
                  None [],
                Add l1 (Loginfo msg1) None [s1],
                Add s2 (ExecuteCommand (exe # cmd)) (Some kw) [s1]]
             @ (if no_report then []
                else [Glob (pathjoin E [range_resdir, ''*.dot'']),
                      Add lj (Loginfo msg2) None [s2]]
                     @ map (\<lambda>(h, f). Add h (LayoutGraph f) None [s2, lj]) (zip dots files)
                     @ [Add rep (GenerateReport start_rev end_rev range_resdir) None dots])
             @ post
         \<and> length dots = length files
         \<and> last cmd = str_int (ids ! i)"
proof -
  from calls_block[OF accepted ranges[unfolded conf_def] i]
  obtain pre post b where
    c: "calls = pre @ range_events E conf project_id dbm
                     (pathjoin E [resdir, conf_project conf, conf_tagging conf]) repo
                     prosoda_conf project_conf no_report loglevel logfile b i (ids ! i)
             @ post"
    unfolding calls_def conf_def repo_def by blast
  let ?cmd = "[''--loglevel'', loglevel] @ logfile_args logfile (''.R.r'' @ str_nat i)
              @ [''-c'', prosoda_conf, ''-p'', project_conf, range_resdir, str_int (ids ! i)]"
  have "calls = pre
             @ [Add b (DoProjectAnalysis conf start_rev end_rev rc_rev range_resdir repo True True)
                  None [],
                Add (b + 1) (Loginfo (''  -> Analysing revision range '' @ start_rev @ ''..''
                  @ end_rev @ '': Detecting clusters...'')) None [b],
                Add (b + 2) (ExecuteCommand (exe # ?cmd))
                  (Some [(''direct_io'', KBool True), (''cwd'', KStr (fst (pathsplit E exe)))]) [b]]
             @ (if no_report then []
                else [Glob (pathjoin E [range_resdir, ''*.dot'']),
                      Add (b + 3) (Loginfo (''  -> Analysing revision range '' @ start_rev @ ''..''
                        @ end_rev @ '': Generating Reports...'')) None [b + 2]]
                     @ map (\<lambda>(h, f). Add h (LayoutGraph f) None [b + 2, b + 3])
                         (zip (dot_handles (b + 4) files) files)
                     @ [Add (b + 4 + length files) (GenerateReport start_rev end_rev range_resdir)
                          None (dot_handles (b + 4) files)])
             @ post"
    unfolding c
    by (simp add: range_events_def rr Let_def dot_events_zip range_resdir_def files_def exe_def)
  moreover have "length (dot_handles (b + 4) files) = length files"
    by (rule length_dot_handles)
  moreover have "last ?cmd = str_int (ids ! i)" by simp
  ultimately show ?thesis by blast
qed

text \<open>
  The first range of the example project, between v1 and v2, has two \<^verbatim>\<open>.dot\<close> files: its
  cluster job depends on its commit-analysis job, its two layout jobs on the cluster job,
  and its report job on the two layout jobs.
\<close>

theorem C1_witness:
  "fst (project_analyse demo_env ''res'' ''git'' ''prosoda.conf'' ''qemu.conf'' False ''info''
          None False 2 fresh) \<noteq> Inl ConfigurationError
   \<and> fst (project_setup demo_env (Configuration_load demo_env ''prosoda.conf'' ''qemu.conf'')
            False fresh) = Inr (1, demo_dbm, [1, 2])
   \<and> (0 :: nat) < length [1, 2 :: int]
   \<and> get_release_range demo_dbm 1 ([1, 2] ! 0) = (''v1'', ''v2'', None)
   \<and> (\<exists>pre post s1 l1 s2 lj rep dots msg1 msg2 cmd kw.
         calls_made (project_analyse demo_env ''res'' ''git'' ''prosoda.conf'' ''qemu.conf'' False
           ''info'' None False 2) fresh
         = pre
           @ [Add s1 (DoProjectAnalysis demo_conf ''v1'' ''v2'' None ''res/qemu/tag/v1-v2''
                ''git/qemu/.git'' True True) None [],
              Add l1 (Loginfo msg1) None [s1],
              Add s2 (ExecuteCommand (''/pkg/R/cluster/persons.r'' # cmd)) (Some kw) [s1]]
           @ ([Glob ''res/qemu/tag/v1-v2/*.dot'',
               Add lj (Loginfo msg2) None [s2]]
              @ map (\<lambda>(h, f). Add h (LayoutGraph f) None [s2, lj])
                  (zip dots [''res/qemu/tag/v1-v2/a.dot'', ''res/qemu/tag/v1-v2/b.dot''])
              @ [Add rep (GenerateReport ''v1'' ''v2'' ''res/qemu/tag/v1-v2'') None dots])
           @ post
         \<and> length dots = length [''res/qemu/tag/v1-v2/a.dot'', ''res/qemu/tag/v1-v2/b.dot'']
         \<and> last cmd = ''1'')"
proof -
  have rr: "get_release_range demo_dbm 1 ([1, 2] ! 0) = (''v1'', ''v2'', None)"
    by (simp add: demo_dbm_def)
  have i: "(0 :: nat) < length [1, 2 :: int]" by simp
  from C1_jobs_of_a_range_form_the_chain[OF demo_accepted demo_ranges i rr]
    demo_accepted demo_ranges i rr
  show ?thesis
    by (simp add: demo_env_def demo_conf_def name_of_module_def str_int_def str_nat.simps
        digit_char_def)
qed

subsection \<open>Claim C2\<close>

text \<open>
  Claim C2. Every \<^verbatim>\<open>BatchJob.add\<close> call of \<^verbatim>\<open>project_analyse\<close> passes as dependencies only
  handles that strictly earlier \<^verbatim>\<open>BatchJob.add\<close> calls of the run returned; the batch system
  rejects none of the submissions, and the dependency relation that the run builds is
  acyclic. This holds for every run.
\<close>

theorem C2_dependencies_are_earlier_handles:
  fixes E resdir gitdir prosoda_conf project_conf no_report loglevel logfile recreate n_jobs st0
  defines "calls \<equiv> calls_made (project_analyse E resdir gitdir prosoda_conf project_conf
                        no_report loglevel logfile recreate n_jobs) st0"
  shows "(\<forall>i h w kw ds d. i < length calls \<and> calls ! i = Add h w kw ds \<and> d \<in> set ds \<longrightarrow>
            (\<exists>j<i. \<exists>w' kw' ds'. calls ! j = Add d w' kw' ds'))
       \<and> (\<forall>w kw ds. AddRejected w kw ds \<notin> set calls)
       \<and> acyclic {(h, d). \<exists>w kw ds. Add h w kw ds \<in> set calls \<and> d \<in> set ds}"
proof (cases "fst (project_analyse E resdir gitdir prosoda_conf project_conf no_report loglevel
                 logfile recreate n_jobs st0) = Inl ConfigurationError")
  case True
  then have "calls = [SetParallelJobs n_jobs]"
    unfolding calls_def by (rule calls_rejected)
  then show ?thesis by (auto simp add: nth_Cons' acyclic_def)
next
  case False
  let ?set = "setup_events E prosoda_conf project_conf n_jobs"
  let ?sub = "submit_events E resdir gitdir prosoda_conf project_conf no_report loglevel logfile
                recreate (length (job_list (pool st0)))"
  let ?fin = "final_events E resdir prosoda_conf project_conf loglevel logfile"
  let ?join = "Join (joined_handles E resdir prosoda_conf project_conf no_report recreate
                        (length (job_list (pool st0))))
                  (fst (join_result E resdir gitdir prosoda_conf project_conf no_report loglevel
                    logfile recreate n_jobs (pool st0)))"
  have c: "calls = ?set @ ?sub @ [?join] @ ?fin"
    unfolding calls_def calls_accepted[OF False] by simp
  have de: "deps_earlier {} calls"
    unfolding c
    by (simp add: deps_earlier_setup_events deps_earlier_append deps_earlier_submit_events
        deps_earlier_final_events)
  have sub: "submission E (Add h w kw ds)" if "Add h w kw ds \<in> set calls" for h w kw ds
  proof -
    from that have "Add h w kw ds \<in> set ?sub"
      unfolding c
      using set_setup_events[of E prosoda_conf project_conf n_jobs]
        set_final_events[of E resdir prosoda_conf project_conf loglevel logfile]
      by auto
    then show ?thesis by (rule submission_submit_events)
  qed
  have 1: "\<exists>j<i. \<exists>w' kw' ds'. calls ! j = Add d w' kw' ds'"
    if "i < length calls" "calls ! i = Add h w kw ds" "d \<in> set ds" for i h w kw ds d
    using deps_earlier_nth[OF de that] by simp
  have 2: "AddRejected w kw ds \<notin> set calls" for w kw ds
  proof
    assume "AddRejected w kw ds \<in> set calls"
    then have "AddRejected w kw ds \<in> set ?sub"
      unfolding c
      using set_setup_events[of E prosoda_conf project_conf n_jobs]
        set_final_events[of E resdir prosoda_conf project_conf loglevel logfile]
      by auto
    then show False
      using submission_submit_events not_submission_simps(5) by blast
  qed
  have "{(h, d). \<exists>w kw ds. Add h w kw ds \<in> set calls \<and> d \<in> set ds} \<subseteq> {(h, d). d < h}"
    using sub by (auto simp add: submission_def)
  then have 3: "acyclic {(h, d). \<exists>w kw ds. Add h w kw ds \<in> set calls \<and> d \<in> set ds}"
    using acyclic_decreasing by (rule acyclic_subset[rotated])
  from 1 2 3 show ?thesis by blast
qed

text \<open>
  In the run of the example project the tenth call submits the report job of the first
  range with the dependencies 4 and 5; the handle 5 was returned by an earlier submission.
\<close>

theorem C2_witness:
  "calls_made (project_analyse demo_env ''res'' ''git'' ''prosoda.conf'' ''qemu.conf'' False
      ''info'' None False 2) fresh ! 9
     = Add 6 (GenerateReport ''v1'' ''v2'' ''res/qemu/tag/v1-v2'') None [4, 5]
   \<and> (\<exists>j w' kw' ds'. j < 9 \<and>
         calls_made (project_analyse demo_env ''res'' ''git'' ''prosoda.conf'' ''qemu.conf'' False
           ''info'' None False 2) fresh ! j = Add 5 w' kw' ds')"
proof -
  let ?calls = "calls_made (project_analyse demo_env ''res'' ''git'' ''prosoda.conf''
                  ''qemu.conf'' False ''info'' None False 2) fresh"
  have a: "9 < length ?calls"
    and b: "?calls ! 9 = Add 6 (GenerateReport ''v1'' ''v2'' ''res/qemu/tag/v1-v2'') None [4, 5]"
    by (simp_all add: demo_calls)
  from C2_dependencies_are_earlier_handles[of demo_env "''res''" "''git''" "''prosoda.conf''"
      "''qemu.conf''" False "''info''" None False 2 fresh]
  have "\<forall>i h w kw ds d. i < length ?calls \<and> ?calls ! i = Add h w kw ds \<and> d \<in> set ds \<longrightarrow>
            (\<exists>j<i. \<exists>w' kw' ds'. ?calls ! j = Add d w' kw' ds')"
    by blast
  from this[rule_format, of 9 6 "GenerateReport ''v1'' ''v2'' ''res/qemu/tag/v1-v2''" None
      "[4, 5]" 5] a b
  have "\<exists>j<9. \<exists>w' kw' ds'. ?calls ! j = Add 5 w' kw' ds'" by simp
  with b show ?thesis by blast
qed

subsection \<open>Claim C3\<close>

text \<open>
  Claim C3. A run of \<^verbatim>\<open>project_analyse\<close> that the batch system accepts calls
  \<^verbatim>\<open>BatchJob.join\<close> exactly once: all submissions come before the join, the handles joined
  are those of the cluster-detection and report-generation jobs submitted, in order, and
  after the join come only the time-series generation and then the time-series analysis.
\<close>

theorem C3_join_once_after_submissions_before_global_stages:
  fixes E resdir gitdir prosoda_conf project_conf no_report loglevel logfile recreate n_jobs st0
  defines "calls \<equiv> calls_made (project_analyse E resdir gitdir prosoda_conf project_conf
                        no_report loglevel logfile recreate n_jobs) st0"
  defines "conf \<equiv> Configuration_load E prosoda_conf project_conf"
  defines "project_resdir \<equiv> pathjoin E [resdir, conf_project conf, conf_tagging conf]"
  defines "exe \<equiv> resource_filename E name_of_module ''R/analyse_ts.r''"
  defines "cmd \<equiv> [exe] @ logfile_args logfile ''.R.ts''
                 @ [''--loglevel'', loglevel, ''-c'', prosoda_conf, ''-p'', project_conf,
                    project_resdir]"
  assumes accepted:
    "fst (project_analyse E resdir gitdir prosoda_conf project_conf no_report loglevel logfile
            recreate n_jobs st0) \<noteq> Inl ConfigurationError"
  shows "\<exists>pre out tail.
           calls = pre @ [Join (cluster_and_report_handles pre) out]
                   @ [LogInfo ''=> Preparing time series data'',
                      DispatchTs project_resdir conf,
                      LogInfo ''=> Analysing time series'',
                      CallExecuteCommand cmd True (fst (pathsplit E exe))]
                   @ tail
         \<and> (\<forall>e\<in>set pre. case e of Join hs r \<Rightarrow> False | DispatchTs d c \<Rightarrow> False
                          | CallExecuteCommand c d w \<Rightarrow> False | _ \<Rightarrow> True)
         \<and> (tail = [] \<or> tail = [LogInfo ''=> Prosoda run complete!''])"
proof -
  let ?set = "setup_events E prosoda_conf project_conf n_jobs"
  let ?sub = "submit_events E resdir gitdir prosoda_conf project_conf no_report loglevel logfile
                recreate (length (job_list (pool st0)))"
  let ?out = "fst (join_result E resdir gitdir prosoda_conf project_conf no_report loglevel
                    logfile recreate n_jobs (pool st0))"
  let ?tail = "if exit_status E cmd (fst (pathsplit E exe)) = 0
               then [LogInfo ''=> Prosoda run complete!''] else []"
  have h: "cluster_and_report_handles (?set @ ?sub)
             = joined_handles E resdir prosoda_conf project_conf no_report recreate
                 (length (job_list (pool st0)))"
    by (simp add: cluster_and_report_handles_append cluster_and_report_handles_setup_events
        cluster_and_report_handles_submit_events)
  have c: "calls = (?set @ ?sub) @ [Join (cluster_and_report_handles (?set @ ?sub)) ?out]
                   @ [LogInfo ''=> Preparing time series data'',
                      DispatchTs project_resdir conf,
                      LogInfo ''=> Analysing time series'',
                      CallExecuteCommand cmd True (fst (pathsplit E exe))]
                   @ ?tail"
    unfolding h calls_def calls_accepted[OF accepted]
    by (simp add: final_events_def Let_def ts_cmd_def ts_cwd_def conf_def project_resdir_def
        exe_def cmd_def)
  have p: "case e of Join hs r \<Rightarrow> False | DispatchTs d c \<Rightarrow> False
                          | CallExecuteCommand c d w \<Rightarrow> False | _ \<Rightarrow> True"
    if "e \<in> set (?set @ ?sub)" for e
  proof (cases "e \<in> set ?set")
    case True
    then show ?thesis
      using set_setup_events[of E prosoda_conf project_conf n_jobs] by auto
  next
    case False
    with that have "submission E e" by (auto intro: submission_submit_events)
    then show ?thesis by (cases e) (simp_all add: submission_def)
  qed
  have t: "?tail = [] \<or> ?tail = [LogInfo ''=> Prosoda run complete!'']" by simp
  from c p t show ?thesis by blast
qed

text \<open>
  The run of the example project joins once, on the cluster and report jobs 2, 6, 9 and
  11 of its two ranges, after the twelve submissions and before the global stages.
\<close>

theorem C3_witness:
  "fst (project_analyse demo_env ''res'' ''git'' ''prosoda.conf'' ''qemu.conf'' False ''info''
          None False 2 fresh) \<noteq> Inl ConfigurationError
   \<and> (\<exists>pre out tail.
         calls_made (project_analyse demo_env ''res'' ''git'' ''prosoda.conf'' ''qemu.conf'' False
           ''info'' None False 2) fresh
         = pre @ [Join (cluster_and_report_handles pre) out]
           @ [LogInfo ''=> Preparing time series data'',
              DispatchTs ''res/qemu/tag'' demo_conf,
              LogInfo ''=> Analysing time series'',
              CallExecuteCommand [''/pkg/R/analyse_ts.r'', ''--loglevel'', ''info'', ''-c'',
                ''prosoda.conf'', ''-p'', ''qemu.conf'', ''res/qemu/tag''] True ''/pkg/R'']
           @ tail
         \<and> cluster_and_report_handles pre = [2, 6, 9, 11])"
proof -
  let ?calls = "calls_made (project_analyse demo_env ''res'' ''git'' ''prosoda.conf''
                  ''qemu.conf'' False ''info'' None False 2) fresh"
  have a: "fst (project_analyse demo_env ''res'' ''git'' ''prosoda.conf'' ''qemu.conf'' False
             ''info'' None False 2 fresh) \<noteq> Inl ConfigurationError"
    by (simp add: project_analyse_result_cases fresh_def dispatch_started_def)
  from C3_join_once_after_submissions_before_global_stages[OF a]
  obtain pre out tail where
    c: "?calls = pre @ [Join (cluster_and_report_handles pre) out]
           @ [LogInfo ''=> Preparing time series data'',
              DispatchTs ''res/qemu/tag'' demo_conf,
              LogInfo ''=> Analysing time series'',
              CallExecuteCommand [''/pkg/R/analyse_ts.r'', ''--loglevel'', ''info'', ''-c'',
                ''prosoda.conf'', ''-p'', ''qemu.conf'', ''res/qemu/tag''] True ''/pkg/R'']
           @ tail"
    and t: "tail = [] \<or> tail = [LogInfo ''=> Prosoda run complete!'']"
    by (simp add: demo_env_def demo_conf_def logfile_args_def name_of_module_def) blast
  have "Join (cluster_and_report_handles pre) out \<in> set ?calls"
    by (subst c) simp
  then have "cluster_and_report_handles pre = [2, 6, 9, 11]"
    by (simp add: demo_calls)
  with a c show ?thesis by blast
qed

subsection \<open>Claim C4\<close>

text \<open>
  Claim C4. In \<^verbatim>\<open>project_analyse\<close> the parallelism level is set exactly once, by
  \<^verbatim>\<open>BatchJob.set_parallel_jobs(n_jobs)\<close>, and that call comes before every
  \<^verbatim>\<open>BatchJob.add\<close>: the calls of a run start with it, no later call sets the level
  again, and every submission is among the later calls. This holds for every run, also
  one that the batch system refuses to configure.
\<close>

theorem C4_parallelism_set_once_first:
  fixes E resdir gitdir prosoda_conf project_conf no_report loglevel logfile recreate n_jobs st0
  defines "calls \<equiv> calls_made (project_analyse E resdir gitdir prosoda_conf project_conf
                        no_report loglevel logfile recreate n_jobs) st0"
  shows "\<exists>rest. calls = SetParallelJobs n_jobs # rest
           \<and> (\<forall>m. SetParallelJobs m \<notin> set rest)
           \<and> (\<forall>h w kw ds. Add h w kw ds \<in> set calls \<longrightarrow> Add h w kw ds \<in> set rest)"
proof (cases "fst (project_analyse E resdir gitdir prosoda_conf project_conf no_report loglevel
                 logfile recreate n_jobs st0) = Inl ConfigurationError")
  case True
  then have "calls = [SetParallelJobs n_jobs]"
    unfolding calls_def by (rule calls_rejected)
  then show ?thesis by simp
next
  case False
  obtain xs where xs: "setup_events E prosoda_conf project_conf n_jobs = SetParallelJobs n_jobs # xs"
    "set xs \<subseteq> {Check4ctags} \<union> range LogInfo"
    using setup_events_Cons by blast
  let ?sub = "submit_events E resdir gitdir prosoda_conf project_conf no_report loglevel logfile
                recreate (length (job_list (pool st0)))"
  let ?fin = "final_events E resdir prosoda_conf project_conf loglevel logfile"
  have c: "calls = SetParallelJobs n_jobs # (xs @ ?sub
             @ [Join (joined_handles E resdir prosoda_conf project_conf no_report recreate
                        (length (job_list (pool st0))))
                  (fst (join_result E resdir gitdir prosoda_conf project_conf no_report loglevel
                    logfile recreate n_jobs (pool st0)))] @ ?fin)"
    unfolding calls_def calls_accepted[OF False] xs(1) by simp
  have "SetParallelJobs m \<notin> set xs" for m using xs(2) by auto
  moreover have "SetParallelJobs m \<notin> set ?sub" for m
    using submission_submit_events not_submission_simps(1) by blast
  moreover have "SetParallelJobs m \<notin> set ?fin" for m
    using set_final_events[of E resdir prosoda_conf project_conf loglevel logfile] by auto
  ultimately show ?thesis
    unfolding c by auto
qed

text \<open>The run of the example project: the level is set to 2 first, a submission follows.\<close>

theorem C4_witness:
  "\<exists>rest. calls_made (project_analyse demo_env ''res'' ''git'' ''prosoda.conf'' ''qemu.conf''
             False ''info'' None False 2) fresh = SetParallelJobs 2 # rest
     \<and> SetParallelJobs 2 \<notin> set rest
     \<and> Add 4 (LayoutGraph ''res/qemu/tag/v1-v2/a.dot'') None [2, 3] \<in> set rest"
proof -
  let ?calls = "calls_made (project_analyse demo_env ''res'' ''git'' ''prosoda.conf''
                  ''qemu.conf'' False ''info'' None False 2) fresh"
  from C4_parallelism_set_once_first[of demo_env "''res''" "''git''" "''prosoda.conf''"
      "''qemu.conf''" False "''info''" None False 2 fresh]
  obtain rest where r: "?calls = SetParallelJobs 2 # rest" "\<forall>m. SetParallelJobs m \<notin> set rest"
    "\<forall>h w kw ds. Add h w kw ds \<in> set ?calls \<longrightarrow> Add h w kw ds \<in> set rest"
    by blast
  have "Add 4 (LayoutGraph ''res/qemu/tag/v1-v2/a.dot'') None [2, 3] \<in> set ?calls"
    by (simp add: demo_calls)
  with r show ?thesis by blast
qed

subsection \<open>Claim C5\<close>

text \<open>
  Claim C5. Direct I/O is an option of the single job. Every submission of
  \<^verbatim>\<open>execute_command\<close> (the cluster-detection job) carries keyword arguments in which
  \<^verbatim>\<open>direct_io\<close> is True, and every submission of another callable
  (\<^verbatim>\<open>doProjectAnalysis\<close>, \<^verbatim>\<open>loginfo\<close>, \<^verbatim>\<open>layout_graph\<close>, \<^verbatim>\<open>generate_report\<close>) passes no keyword
  arguments at all. Every direct call of \<^verbatim>\<open>execute_command\<close> passes \<^verbatim>\<open>direct_io=True\<close>, and a
  run that the batch system accepts makes that call for the time-series analysis.
\<close>

theorem C5_direct_io_per_job:
  fixes E resdir gitdir prosoda_conf project_conf no_report loglevel logfile recreate n_jobs st0
  defines "calls \<equiv> calls_made (project_analyse E resdir gitdir prosoda_conf project_conf
                        no_report loglevel logfile recreate n_jobs) st0"
  defines "conf \<equiv> Configuration_load E prosoda_conf project_conf"
  defines "project_resdir \<equiv> pathjoin E [resdir, conf_project conf, conf_tagging conf]"
  defines "exe \<equiv> resource_filename E name_of_module ''R/analyse_ts.r''"
  defines "cmd \<equiv> [exe] @ logfile_args logfile ''.R.ts''
                 @ [''--loglevel'', loglevel, ''-c'', prosoda_conf, ''-p'', project_conf,
                    project_resdir]"
  shows "(\<forall>h w kw ds. Add h w kw ds \<in> set calls \<longrightarrow>
            (case w of
               ExecuteCommand c \<Rightarrow> (\<exists>k. kw = Some k \<and> map_of k ''direct_io'' = Some (KBool True))
             | _ \<Rightarrow> kw = None))
       \<and> (\<forall>c d w. CallExecuteCommand c d w \<in> set calls \<longrightarrow> d)
       \<and> (fst (project_analyse E resdir gitdir prosoda_conf project_conf no_report loglevel
                 logfile recreate n_jobs st0) \<noteq> Inl ConfigurationError \<longrightarrow>
            CallExecuteCommand cmd True (fst (pathsplit E exe)) \<in> set calls)"
proof (cases "fst (project_analyse E resdir gitdir prosoda_conf project_conf no_report loglevel
                 logfile recreate n_jobs st0) = Inl ConfigurationError")
  case True
  then have "calls = [SetParallelJobs n_jobs]"
    unfolding calls_def by (rule calls_rejected)
  with True show ?thesis by simp
next
  case False
  let ?set = "setup_events E prosoda_conf project_conf n_jobs"
  let ?sub = "submit_events E resdir gitdir prosoda_conf project_conf no_report loglevel logfile
                recreate (length (job_list (pool st0)))"
  let ?fin = "final_events E resdir prosoda_conf project_conf loglevel logfile"
  let ?join = "Join (joined_handles E resdir prosoda_conf project_conf no_report recreate
                        (length (job_list (pool st0))))
                  (fst (join_result E resdir gitdir prosoda_conf project_conf no_report loglevel
                    logfile recreate n_jobs (pool st0)))"
  have c: "calls = ?set @ ?sub @ [?join] @ ?fin"
    unfolding calls_def calls_accepted[OF False] by simp
  have 1: "case w of
               ExecuteCommand c \<Rightarrow> (\<exists>k. kw = Some k \<and> map_of k ''direct_io'' = Some (KBool True))
             | _ \<Rightarrow> kw = None"
    if "Add h w kw ds \<in> set calls" for h w kw ds
  proof -
    from that have "Add h w kw ds \<in> set ?sub"
      unfolding c
      using set_setup_events[of E prosoda_conf project_conf n_jobs]
        set_final_events[of E resdir prosoda_conf project_conf loglevel logfile]
      by auto
    then have "submission E (Add h w kw ds)" by (rule submission_submit_events)
    then show ?thesis by (cases w) (simp_all add: submission_def)
  qed
  have 2: "d" if "CallExecuteCommand c' d w \<in> set calls" for c' d w
  proof -
    from that have "CallExecuteCommand c' d w \<in> set ?fin"
      unfolding c
      using set_setup_events[of E prosoda_conf project_conf n_jobs]
        submission_submit_events[of "CallExecuteCommand c' d w" E resdir gitdir prosoda_conf
          project_conf no_report loglevel logfile recreate "length (job_list (pool st0))"]
        not_submission_simps(3)[of E c' d w]
      by auto
    then show ?thesis
      using set_final_events[of E resdir prosoda_conf project_conf loglevel logfile] by auto
  qed
  have 3: "CallExecuteCommand cmd True (fst (pathsplit E exe)) \<in> set calls"
    unfolding c
    by (simp add: final_events_def Let_def ts_cmd_def ts_cwd_def cmd_def exe_def
        project_resdir_def conf_def)
  from 1 2 3 show ?thesis by blast
qed

text \<open>
  In the run of the example project the cluster job of the first range is submitted with
  \<^verbatim>\<open>direct_io\<close> True in its keyword arguments, and the time-series analysis is called
  with \<^verbatim>\<open>direct_io=True\<close>.
\<close>

theorem C5_witness:
  "Add 2 (ExecuteCommand [''/pkg/R/cluster/persons.r'', ''--loglevel'', ''info'', ''-c'',
            ''prosoda.conf'', ''-p'', ''qemu.conf'', ''res/qemu/tag/v1-v2'', ''1''])
      (Some [(''direct_io'', KBool True), (''cwd'', KStr ''/pkg/R/cluster'')]) [0]
     \<in> set (calls_made (project_analyse demo_env ''res'' ''git'' ''prosoda.conf'' ''qemu.conf''
               False ''info'' None False 2) fresh)
   \<and> (\<exists>k. Some [(''direct_io'', KBool True), (''cwd'', KStr ''/pkg/R/cluster'')] = Some k
          \<and> map_of k ''direct_io'' = Some (KBool True))
   \<and> CallExecuteCommand [''/pkg/R/analyse_ts.r'', ''--loglevel'', ''info'', ''-c'',
        ''prosoda.conf'', ''-p'', ''qemu.conf'', ''res/qemu/tag''] True ''/pkg/R''
       \<in> set (calls_made (project_analyse demo_env ''res'' ''git'' ''prosoda.conf'' ''qemu.conf''
               False ''info'' None False 2) fresh)"
proof -
  let ?calls = "calls_made (project_analyse demo_env ''res'' ''git'' ''prosoda.conf''
                  ''qemu.conf'' False ''info'' None False 2) fresh"
  let ?w = "ExecuteCommand [''/pkg/R/cluster/persons.r'', ''--loglevel'', ''info'', ''-c'',
            ''prosoda.conf'', ''-p'', ''qemu.conf'', ''res/qemu/tag/v1-v2'', ''1'']"
  let ?kw = "Some [(''direct_io'', KBool True), (''cwd'', KStr ''/pkg/R/cluster'')]"
  note t = C5_direct_io_per_job[of demo_env "''res''" "''git''" "''prosoda.conf''"
      "''qemu.conf''" False "''info''" None False 2 fresh]
  have a: "Add 2 ?w ?kw [0] \<in> set ?calls"
    by (simp add: demo_calls)
  from t have "\<forall>h w kw ds. Add h w kw ds \<in> set ?calls \<longrightarrow>
            (case w of
               ExecuteCommand c \<Rightarrow> (\<exists>k. kw = Some k \<and> map_of k ''direct_io'' = Some (KBool True))
             | _ \<Rightarrow> kw = None)"
    by blast
  from this[rule_format, OF a]
  have b: "\<exists>k. ?kw = Some k \<and> map_of k ''direct_io'' = Some (KBool True)"
    by simp
  from t demo_accepted
  have c: "CallExecuteCommand [''/pkg/R/analyse_ts.r'', ''--loglevel'', ''info'', ''-c'',
        ''prosoda.conf'', ''-p'', ''qemu.conf'', ''res/qemu/tag''] True ''/pkg/R'' \<in> set ?calls"
    by (simp add: demo_env_def demo_conf_def logfile_args_def name_of_module_def)
  from a b c show ?thesis by blast
qed

subsection \<open>Claim C6\<close>

text \<open>
  Claim C6. Every invocation of \<^verbatim>\<open>execute_command\<close> in the module passes an argument vector
  that starts with the script to run, the working directory of that script and direct
  I/O: the cluster job submitted by \<^verbatim>\<open>project_analyse\<close> (in its keyword arguments), its
  direct call for the time-series analysis, and the calls of \<^verbatim>\<open>mailinglist_analyse\<close>. The
  wrapper returns on exit status zero and raises a job failure otherwise; so a run of either
  function returns normally exactly when every command it called exited with status zero,
  and otherwise it ends with JobFailure, the failing command being its last call.
\<close>

theorem C6_execute_command_invocations:
  fixes E resdir gitdir prosoda_conf project_conf no_report loglevel logfile recreate n_jobs st0
    ml_resdir mldir ml_prosoda_conf ml_project_conf ml_loglevel ml_logfile ml_jobs st1
  defines "pa \<equiv> project_analyse E resdir gitdir prosoda_conf project_conf no_report loglevel
                   logfile recreate n_jobs"
  defines "ma \<equiv> mailinglist_analyse E ml_resdir mldir ml_prosoda_conf ml_project_conf
                   ml_loglevel ml_logfile ml_jobs"
  defines "persons \<equiv> resource_filename E name_of_module ''R/cluster/persons.r''"
  defines "analyse_ts \<equiv> resource_filename E name_of_module ''R/analyse_ts.r''"
  defines "batch \<equiv> resource_filename E name_of_module ''R/ml/batch.r''"
  shows "(\<forall>h c kw ds. Add h (ExecuteCommand c) kw ds \<in> set (calls_made pa st0) \<longrightarrow>
            c \<noteq> [] \<and> hd c = persons
            \<and> kw = Some [(''direct_io'', KBool True), (''cwd'', KStr (fst (pathsplit E persons)))])
       \<and> (\<forall>c d w. CallExecuteCommand c d w \<in> set (calls_made pa st0) \<longrightarrow>
            c \<noteq> [] \<and> hd c = analyse_ts \<and> d \<and> w = fst (pathsplit E analyse_ts))
       \<and> (\<forall>c d w. CallExecuteCommand c d w \<in> set (calls_made ma st1) \<longrightarrow>
            c \<noteq> [] \<and> hd c = batch \<and> d \<and> w = fst (pathsplit E batch))
       \<and> (\<forall>c d w. (exit_status E c w = 0 \<longrightarrow> execute_command (exit_status E) c d w = Inr ())
                 \<and> (exit_status E c w \<noteq> 0 \<longrightarrow>
                      execute_command (exit_status E) c d w = Inl JobFailure))
       \<and> (fst (pa st0) \<noteq> Inl ConfigurationError \<longrightarrow>
            (fst (pa st0) = Inr () \<longleftrightarrow>
               (\<forall>c d w. CallExecuteCommand c d w \<in> set (calls_made pa st0)
                  \<longrightarrow> exit_status E c w = 0))
            \<and> (fst (pa st0) \<noteq> Inr () \<longrightarrow>
                 fst (pa st0) = Inl JobFailure
                 \<and> (\<exists>c w. last (calls_made pa st0) = CallExecuteCommand c True w
                       \<and> exit_status E c w \<noteq> 0)))
       \<and> (fst (ma st1) = Inr () \<longleftrightarrow>
            (\<forall>c d w. CallExecuteCommand c d w \<in> set (calls_made ma st1)
               \<longrightarrow> exit_status E c w = 0))
       \<and> (fst (ma st1) \<noteq> Inr () \<longrightarrow>
            fst (ma st1) = Inl JobFailure
            \<and> (\<exists>c w. last (calls_made ma st1) = CallExecuteCommand c True w
                  \<and> exit_status E c w \<noteq> 0))"
proof -
  have 1: "c \<noteq> [] \<and> hd c = persons
            \<and> kw = Some [(''direct_io'', KBool True), (''cwd'', KStr (fst (pathsplit E persons)))]"
    if "Add h (ExecuteCommand c) kw ds \<in> set (calls_made pa st0)" for h c kw ds
  proof (cases "fst (pa st0) = Inl ConfigurationError")
    case True
    then have "calls_made pa st0 = [SetParallelJobs n_jobs]"
      unfolding pa_def by (rule calls_rejected)
    with that show ?thesis by simp
  next
    case False
    then have f: "fst (project_analyse E resdir gitdir prosoda_conf project_conf no_report
                    loglevel logfile recreate n_jobs st0) \<noteq> Inl ConfigurationError"
      by (simp add: pa_def)
    from that have "Add h (ExecuteCommand c) kw ds
        \<in> set (submit_events E resdir gitdir prosoda_conf project_conf no_report loglevel logfile
                recreate (length (job_list (pool st0))))"
      unfolding pa_def calls_accepted[OF f]
      using set_setup_events[of E prosoda_conf project_conf n_jobs]
        set_final_events[of E resdir prosoda_conf project_conf loglevel logfile]
      by auto
    then have "submission E (Add h (ExecuteCommand c) kw ds)"
      by (rule submission_submit_events)
    then show ?thesis by (simp add: submission_def persons_def)
  qed
  have 2: "c \<noteq> [] \<and> hd c = analyse_ts \<and> d \<and> w = fst (pathsplit E analyse_ts)"
    if "CallExecuteCommand c d w \<in> set (calls_made pa st0)" for c d w
  proof (cases "fst (pa st0) = Inl ConfigurationError")
    case True
    then have "calls_made pa st0 = [SetParallelJobs n_jobs]"
      unfolding pa_def by (rule calls_rejected)
    with that show ?thesis by simp
  next
    case False
    then have f: "fst (project_analyse E resdir gitdir prosoda_conf project_conf no_report
                    loglevel logfile recreate n_jobs st0) \<noteq> Inl ConfigurationError"
      by (simp add: pa_def)
    from that show ?thesis
      unfolding pa_def calls_accepted_calls[OF f]
      by (simp add: ts_cmd_def ts_cwd_def analyse_ts_def)
  qed
  let ?mls = "enumerate 0 (conf_mailinglists (Configuration_load E ml_prosoda_conf ml_project_conf))"
  let ?cmd = "ml_cmd E ml_resdir mldir ml_prosoda_conf ml_project_conf ml_loglevel ml_jobs"
  let ?cwd = "fst (pathsplit E batch)"
  let ?ok = "ml_ok E batch ?cwd ?cmd ml_logfile ?mls"
  let ?evs = "ml_events E batch ?cwd ?cmd ml_logfile ?mls"
  have mc: "ma st1 = (if ?ok then Inr () else Inl JobFailure,
              submitted (?evs @ (if ?ok then [LogInfo ''=> Prosoda mailing list analysis complete!'']
                                 else [])) st1)"
    unfolding ma_def batch_def by (rule mailinglist_analyse_closed)
  have mcalls: "calls_made ma st1
                = ?evs @ (if ?ok then [LogInfo ''=> Prosoda mailing list analysis complete!'']
                          else [])"
    by (simp add: calls_made_def mc submitted_def)
  have mres: "fst (ma st1) = (if ?ok then Inr () else Inl JobFailure)"
    by (simp add: mc)
  have 3: "c \<noteq> [] \<and> hd c = batch \<and> d \<and> w = fst (pathsplit E batch)"
    if "CallExecuteCommand c d w \<in> set (calls_made ma st1)" for c d w
  proof -
    from that have "CallExecuteCommand c d w \<in> set ?evs"
      unfolding mcalls by (auto split: if_splits)
    then show ?thesis by (rule ml_events_calls)
  qed
  have 4: "(exit_status E c w = 0 \<longrightarrow> execute_command (exit_status E) c d w = Inr ())
         \<and> (exit_status E c w \<noteq> 0 \<longrightarrow> execute_command (exit_status E) c d w = Inl JobFailure)"
    for c d w
    by (simp add: execute_command_def)
  have 5: "(fst (pa st0) = Inr () \<longleftrightarrow>
               (\<forall>c d w. CallExecuteCommand c d w \<in> set (calls_made pa st0)
                  \<longrightarrow> exit_status E c w = 0))
            \<and> (fst (pa st0) \<noteq> Inr () \<longrightarrow>
                 fst (pa st0) = Inl JobFailure
                 \<and> (\<exists>c w. last (calls_made pa st0) = CallExecuteCommand c True w
                       \<and> exit_status E c w \<noteq> 0))"
    if "fst (pa st0) \<noteq> Inl ConfigurationError"
  proof -
    from that have f: "fst (project_analyse E resdir gitdir prosoda_conf project_conf no_report
                    loglevel logfile recreate n_jobs st0) \<noteq> Inl ConfigurationError"
      by (simp add: pa_def)
    have l: "last (calls_made pa st0)
             = last (final_events E resdir prosoda_conf project_conf loglevel logfile)"
      unfolding pa_def calls_accepted[OF f] by (simp add: final_events_def Let_def)
    show ?thesis
      unfolding l
      unfolding pa_def project_analyse_result[OF f] calls_accepted_calls[OF f]
      by (auto simp add: execute_command_def final_events_def Let_def)
  qed
  have 6: "fst (ma st1) = Inr () \<longleftrightarrow>
            (\<forall>c d w. CallExecuteCommand c d w \<in> set (calls_made ma st1)
               \<longrightarrow> exit_status E c w = 0)"
  proof -
    have "(\<forall>c d w. CallExecuteCommand c d w \<in> set (calls_made ma st1)
               \<longrightarrow> exit_status E c w = 0)
          \<longleftrightarrow> (\<forall>c d w. CallExecuteCommand c d w \<in> set ?evs \<longrightarrow> exit_status E c w = 0)"
      unfolding mcalls by auto
    then show ?thesis
      unfolding mres using ml_ok_iff[of E batch ?cwd ?cmd ml_logfile ?mls] by simp
  qed
  have 7: "fst (ma st1) = Inl JobFailure
            \<and> (\<exists>c w. last (calls_made ma st1) = CallExecuteCommand c True w
                  \<and> exit_status E c w \<noteq> 0)"
    if "fst (ma st1) \<noteq> Inr ()"
  proof -
    from that have n: "\<not> ?ok" unfolding mres by (auto split: if_splits)
    from ml_failed_last[OF n] n show ?thesis
      unfolding mres mcalls by auto
  qed
  from 1 2 3 4 5 6 7 show ?thesis by blast
qed

text \<open>
  Two mailing lists, the command of the second exits with status 1: the run calls
  \<^verbatim>\<open>batch.r\<close> for the first list with direct I/O in the directory of the script, then for
  the second, and ends there with JobFailure.
\<close>

theorem C6_witness:
  "CallExecuteCommand [''/pkg/R/ml/batch.r'', ''--loglevel'', ''info'', ''-c'',
      ''prosoda.conf'', ''-p'', ''qemu.conf'', ''-j'', ''4'', ''res/qemu/ml'', ''ml'', ''devel'']
      True ''/pkg/R/ml''
     \<in> set (calls_made (mailinglist_analyse demo_env_failing ''res'' ''ml'' ''prosoda.conf''
               ''qemu.conf'' ''info'' None 4) fresh)
   \<and> ''/pkg/R/ml'' = fst (pathsplit demo_env_failing
                           (resource_filename demo_env_failing name_of_module ''R/ml/batch.r''))
   \<and> fst (mailinglist_analyse demo_env_failing ''res'' ''ml'' ''prosoda.conf'' ''qemu.conf''
            ''info'' None 4 fresh) = Inl JobFailure
   \<and> (\<exists>c w. last (calls_made (mailinglist_analyse demo_env_failing ''res'' ''ml''
                 ''prosoda.conf'' ''qemu.conf'' ''info'' None 4) fresh)
             = CallExecuteCommand c True w
          \<and> exit_status demo_env_failing c w \<noteq> 0)"
proof -
  let ?ma = "mailinglist_analyse demo_env_failing ''res'' ''ml'' ''prosoda.conf'' ''qemu.conf''
               ''info'' None 4"
  let ?c = "[''/pkg/R/ml/batch.r'', ''--loglevel'', ''info'', ''-c'',
      ''prosoda.conf'', ''-p'', ''qemu.conf'', ''-j'', ''4'', ''res/qemu/ml'', ''ml'', ''devel'']"
  note t = C6_execute_command_invocations[of demo_env_failing "''res''" "''git''"
      "''prosoda.conf''" "''qemu.conf''" False "''info''" None False 2 fresh
      "''res''" "''ml''" "''prosoda.conf''" "''qemu.conf''" "''info''" None 4 fresh]
  have a: "CallExecuteCommand ?c True ''/pkg/R/ml'' \<in> set (calls_made ?ma fresh)"
    unfolding calls_made_def demo_ml_run by (simp add: fresh_def)
  from t have "\<forall>c d w. CallExecuteCommand c d w \<in> set (calls_made ?ma fresh) \<longrightarrow>
            c \<noteq> [] \<and> hd c = resource_filename demo_env_failing name_of_module ''R/ml/batch.r''
            \<and> d \<and> w = fst (pathsplit demo_env_failing
                   (resource_filename demo_env_failing name_of_module ''R/ml/batch.r''))"
    by blast
  from this[rule_format, OF a]
  have b: "''/pkg/R/ml'' = fst (pathsplit demo_env_failing
                           (resource_filename demo_env_failing name_of_module ''R/ml/batch.r''))"
    by blast
  have n: "fst (?ma fresh) \<noteq> Inr ()"
    by (simp add: demo_ml_run)
  from t have "fst (?ma fresh) \<noteq> Inr () \<longrightarrow>
            fst (?ma fresh) = Inl JobFailure
            \<and> (\<exists>c w. last (calls_made ?ma fresh) = CallExecuteCommand c True w
                  \<and> exit_status demo_env_failing c w \<noteq> 0)"
    by blast
  with n have c: "fst (?ma fresh) = Inl JobFailure"
    and d: "\<exists>c w. last (calls_made ?ma fresh) = CallExecuteCommand c True w
                  \<and> exit_status demo_env_failing c w \<noteq> 0"
    by blast+
  from a b c d show ?thesis by blast
qed

subsection \<open>Claim C7\<close>

text \<open>
  Claim C7. A join on the empty list of handles returns All-Succeeded at once and leaves
  the pool as it was. When the configuration yields no revision range, a run that the
  batch system accepts submits nothing, joins on the empty list and goes on to the two
  global stages: these are all its calls.
\<close>

theorem C7_join_of_no_handles:
  fixes E resdir gitdir prosoda_conf project_conf no_report loglevel logfile recreate n_jobs st0
    s project_id dbm ok p
  defines "conf \<equiv> Configuration_load E prosoda_conf project_conf"
  defines "project_resdir \<equiv> pathjoin E [resdir, conf_project conf, conf_tagging conf]"
  defines "exe \<equiv> resource_filename E name_of_module ''R/analyse_ts.r''"
  defines "cmd \<equiv> [exe] @ logfile_args logfile ''.R.ts''
                 @ [''--loglevel'', loglevel, ''-c'', prosoda_conf, ''-p'', project_conf,
                    project_resdir]"
  assumes accepted:
    "fst (project_analyse E resdir gitdir prosoda_conf project_conf no_report loglevel logfile
            recreate n_jobs st0) \<noteq> Inl ConfigurationError"
  assumes no_ranges: "fst (project_setup E conf recreate s) = Inr (project_id, dbm, [])"
  shows "BatchJob_join ok [] p = (All_Succeeded, p)
       \<and> calls_made (project_analyse E resdir gitdir prosoda_conf project_conf no_report loglevel
            logfile recreate n_jobs) st0 =
         [SetParallelJobs n_jobs]
         @ (if ''proximity'' = conf_tagging conf then [Check4ctags] else [])
         @ [LogInfo (''=> Setting up project '' @ quote @ conf_project conf @ quote),
            Join [] All_Succeeded,
            LogInfo ''=> Preparing time series data'',
            DispatchTs project_resdir conf,
            LogInfo ''=> Analysing time series'',
            CallExecuteCommand cmd True (fst (pathsplit E exe))]
         @ (if exit_status E cmd (fst (pathsplit E exe)) = 0
            then [LogInfo ''=> Prosoda run complete!''] else [])"
proof -
  from no_ranges have r: "release_ranges E conf recreate = (project_id, dbm, [])"
    by (simp add: project_setup_result)
  show ?thesis
    unfolding calls_accepted[OF accepted]
    using r
    by (simp add: BatchJob_join_Nil setup_events_def submit_events_def joined_handles_def
        final_events_def join_result_def Let_def conf_def project_resdir_def exe_def cmd_def
        ts_cmd_def ts_cwd_def)
qed

text \<open>A project with a single revision has no range: the run joins on the empty list.\<close>

theorem C7_witness:
  "fst (project_analyse demo_env1 ''res'' ''git'' ''prosoda.conf'' ''qemu.conf'' False ''info''
          (Some ''log'') False 2 fresh) \<noteq> Inl ConfigurationError
   \<and> fst (project_setup demo_env1 (demo_conf\<lparr>conf_revisions := [''v1'']\<rparr>) False fresh)
       = Inr (1, demo_dbm, [])
   \<and> BatchJob_join (\<lambda>_. True) [] (pool fresh) = (All_Succeeded, pool fresh)
   \<and> calls_made (project_analyse demo_env1 ''res'' ''git'' ''prosoda.conf'' ''qemu.conf'' False
        ''info'' (Some ''log'') False 2) fresh =
      [SetParallelJobs 2,
       LogInfo (''=> Setting up project '' @ quote @ ''qemu'' @ quote),
       Join [] All_Succeeded,
       LogInfo ''=> Preparing time series data'',
       DispatchTs ''res/qemu/tag'' (demo_conf\<lparr>conf_revisions := [''v1'']\<rparr>),
       LogInfo ''=> Analysing time series'',
       CallExecuteCommand [''/pkg/R/analyse_ts.r'', ''--logfile'', ''log.R.ts'', ''--loglevel'',
         ''info'', ''-c'', ''prosoda.conf'', ''-p'', ''qemu.conf'', ''res/qemu/tag''] True ''/pkg/R'',
       LogInfo ''=> Prosoda run complete!'']"
proof -
  have a: "fst (project_analyse demo_env1 ''res'' ''git'' ''prosoda.conf'' ''qemu.conf'' False
             ''info'' (Some ''log'') False 2 fresh) \<noteq> Inl ConfigurationError"
    by (simp add: project_analyse_result_cases fresh_def dispatch_started_def)
  have b: "fst (project_setup demo_env1 (Configuration_load demo_env1 ''prosoda.conf'' ''qemu.conf'')
             False fresh) = Inr (1, demo_dbm, [])"
    by (simp add: project_setup_result release_ranges_def demo_env1_def demo_env_def
        demo_conf_def demo_dbm_def)
  have c: "Configuration_load demo_env1 ''prosoda.conf'' ''qemu.conf''
             = demo_conf\<lparr>conf_revisions := [''v1'']\<rparr>"
    by (simp add: demo_env1_def demo_env_def)
  from C7_join_of_no_handles[OF a b, of "\<lambda>_. True" "pool fresh"] a b
  show ?thesis
    by (simp add: c demo_env1_def demo_env_def demo_conf_def logfile_args_def name_of_module_def)
qed

subsection \<open>Claim C8\<close>

text \<open>
  Claim C8. The submissions of a run of \<^verbatim>\<open>project_analyse\<close> are the calls of its loop
  over the revision ranges, and they all come before the join. In that loop, with reports
  enabled, the \<^verbatim>\<open>layout_graph\<close> jobs of a range are one per file that the glob for
  \<^verbatim>\<open>*.dot\<close> in the range's result directory returns when it is called, right after the
  cluster-detection job is submitted. The loop returns without joining on anything, and
  when it is done the commit-analysis and the cluster-detection job of the range are still
  Pending. If the glob matched no file, the \<^verbatim>\<open>generate_report\<close> job is submitted with no
  dependency: it is in the ready set, while the cluster-detection job is not; it waits
  for no other job, and neither the commit-analysis nor the cluster-detection job waits
  for it.
\<close>

theorem C8_layout_jobs_from_glob_at_submission:
  fixes E resdir gitdir prosoda_conf project_conf loglevel logfile recreate n_jobs st0
    s project_id dbm ids i start_rev end_rev rc_rev
  defines "conf \<equiv> Configuration_load E prosoda_conf project_conf"
  defines "project_resdir \<equiv> pathjoin E [resdir, conf_project conf, conf_tagging conf]"
  defines "repo \<equiv> pathjoin E [gitdir, conf_repo conf, ''.git'']"
  defines "loop \<equiv> analyse_ranges E conf project_id dbm project_resdir repo prosoda_conf
                     project_conf False loglevel logfile [] (enumerate 0 ids)"
  defines "range_resdir \<equiv> pathjoin E [project_resdir, start_rev @ ''-'' @ end_rev]"
  defines "files \<equiv> glob E (pathjoin E [range_resdir, ''*.dot''])"
  defines "p \<equiv> pool (snd (loop st0))"
  defines "tbl \<equiv> map dependencies (job_list p)"
  assumes accepted:
    "fst (project_analyse E resdir gitdir prosoda_conf project_conf False loglevel logfile
            recreate n_jobs st0) \<noteq> Inl ConfigurationError"
  assumes ranges: "fst (project_setup E conf recreate s) = Inr (project_id, dbm, ids)"
  assumes i: "i < length ids"
  assumes rr: "get_release_range dbm project_id (ids ! i) = (start_rev, end_rev, rc_rev)"
  shows "\<exists>a hs out z pre post s1 l1 s2 lj rep dots msg1 msg2 cmd kw.
           calls_made (project_analyse E resdir gitdir prosoda_conf project_conf False loglevel
             logfile recreate n_jobs) st0 = a @ calls_made loop st0 @ Join hs out # z
         \<and> (\<forall>e\<in>set a. case e of Add h w kw ds \<Rightarrow> False | Join hs r \<Rightarrow> False | _ \<Rightarrow> True)
         \<and> calls_made loop st0 = pre
             @ [Add s1 (DoProjectAnalysis conf start_rev end_rev rc_rev range_resdir repo True True)
                  None [],
                Add l1 (Loginfo msg1) None [s1],
                Add s2 (ExecuteCommand cmd) (Some kw) [s1],
                Glob (pathjoin E [range_resdir, ''*.dot'']),
                Add lj (Loginfo msg2) None [s2]]
             @ map (\<lambda>(h, f). Add h (LayoutGraph f) None [s2, lj]) (zip dots files)
             @ [Add rep (GenerateReport start_rev end_rev range_resdir) None dots]
             @ post
         \<and> length dots = length files
         \<and> (\<forall>hs r. Join hs r \<notin> set (calls_made loop st0))
         \<and> state (job_list p ! s1) = Pending
         \<and> state (job_list p ! s2) = Pending
         \<and> (files = [] \<longrightarrow>
              dependencies (job_list p ! rep) = []
              \<and> rep \<in> set (ready_set p)
              \<and> s2 \<notin> set (ready_set p)
              \<and> needed tbl [rep] = {rep}
              \<and> rep \<notin> needed tbl [s1]
              \<and> rep \<notin> needed tbl [s2])"
proof -
  from submissions_are_the_loop[OF accepted ranges[unfolded conf_def]]
  obtain a hs out z where
    1: "calls_made (project_analyse E resdir gitdir prosoda_conf project_conf False loglevel
             logfile recreate n_jobs) st0 = a @ calls_made loop st0 @ Join hs out # z"
    and 2: "\<forall>e\<in>set a. case e of Add h w kw ds \<Rightarrow> False | Join hs r \<Rightarrow> False | _ \<Rightarrow> True"
    unfolding loop_def conf_def project_resdir_def repo_def by blast
  from loop_range_submissions[OF i rr, of E conf project_resdir repo prosoda_conf project_conf
      loglevel logfile st0]
  obtain pre post s1 l1 s2 lj rep dots msg1 msg2 cmd kw where
    3: "calls_made loop st0 = pre
             @ [Add s1 (DoProjectAnalysis conf start_rev end_rev rc_rev range_resdir repo True True)
                  None [],
                Add l1 (Loginfo msg1) None [s1],
                Add s2 (ExecuteCommand cmd) (Some kw) [s1],
                Glob (pathjoin E [range_resdir, ''*.dot'']),
                Add lj (Loginfo msg2) None [s2]]
             @ map (\<lambda>(h, f). Add h (LayoutGraph f) None [s2, lj]) (zip dots files)
             @ [Add rep (GenerateReport start_rev end_rev range_resdir) None dots]
             @ post"
    and 4: "length dots = length files"
    and 5: "\<forall>hs r. Join hs r \<notin> set (calls_made loop st0)"
    and 6: "state (job_list p ! s1) = Pending" "state (job_list p ! s2) = Pending"
    and 7: "files = [] \<longrightarrow>
              dependencies (job_list p ! rep) = []
              \<and> rep \<in> set (ready_set p)
              \<and> s2 \<notin> set (ready_set p)
              \<and> needed tbl [rep] = {rep}
              \<and> rep \<notin> needed tbl [s1]
              \<and> rep \<notin> needed tbl [s2]"
    unfolding loop_def range_resdir_def files_def p_def tbl_def by blast
  from 1 2 3 4 5 6 7 show ?thesis by blast
qed

text \<open>
  The second range of the example project has no \<^verbatim>\<open>.dot\<close> file: its report job is
  submitted without dependencies and is ready, its cluster job is not.
\<close>

theorem C8_witness:
  "fst (project_analyse demo_env ''res'' ''git'' ''prosoda.conf'' ''qemu.conf'' False ''info''
          None False 2 fresh) \<noteq> Inl ConfigurationError
   \<and> fst (project_setup demo_env (Configuration_load demo_env ''prosoda.conf'' ''qemu.conf'')
            False fresh) = Inr (1, demo_dbm, [1, 2])
   \<and> (1 :: nat) < length [1, 2 :: int]
   \<and> get_release_range demo_dbm 1 ([1, 2] ! 1) = (''v2'', ''v3'', None)
   \<and> glob demo_env (pathjoin demo_env [demo_range_resdir, ''*.dot'']) = []
   \<and> (\<exists>a hs out z s1 s2 rep cmd kw.
         calls_made (project_analyse demo_env ''res'' ''git'' ''prosoda.conf'' ''qemu.conf'' False
           ''info'' None False 2) fresh = a @ calls_made demo_loop fresh @ Join hs out # z
       \<and> Add s2 (ExecuteCommand cmd) (Some kw) [s1] \<in> set (calls_made demo_loop fresh)
       \<and> Add rep (GenerateReport ''v2'' ''v3'' demo_range_resdir) None []
           \<in> set (calls_made demo_loop fresh)
       \<and> rep \<in> set (ready_set (pool (snd (demo_loop fresh))))
       \<and> s2 \<notin> set (ready_set (pool (snd (demo_loop fresh))))
       \<and> needed (map dependencies (job_list (pool (snd (demo_loop fresh))))) [rep] = {rep}
       \<and> rep \<notin> needed (map dependencies (job_list (pool (snd (demo_loop fresh))))) [s1]
       \<and> rep \<notin> needed (map dependencies (job_list (pool (snd (demo_loop fresh))))) [s2])"
proof -
  let ?p = "pool (snd (demo_loop fresh))"
  let ?tbl = "map dependencies (job_list ?p)"
  let ?files = "glob demo_env (pathjoin demo_env [demo_range_resdir, ''*.dot''])"
  have i: "(1 :: nat) < length [1, 2 :: int]" by simp
  have rr: "get_release_range demo_dbm 1 ([1, 2] ! 1) = (''v2'', ''v3'', None)"
    by (simp add: demo_dbm_def)
  have f: "?files = []" by (simp add: demo_env_def demo_range_resdir_def)
  have e1: "Configuration_load demo_env ''prosoda.conf'' ''qemu.conf'' = demo_conf"
    by (simp add: demo_env_def)
  have e2: "pathjoin demo_env [''res'', conf_project demo_conf, conf_tagging demo_conf]
            = ''res/qemu/tag''"
    by (simp add: demo_env_def demo_conf_def)
  have e3: "pathjoin demo_env [''git'', conf_repo demo_conf, ''.git''] = ''git/qemu/.git''"
    by (simp add: demo_env_def demo_conf_def)
  note t = C8_layout_jobs_from_glob_at_submission[OF demo_accepted demo_ranges i rr,
      unfolded e1 e2 e3 demo_loop_def[symmetric] demo_range_resdir_def[symmetric]]
  from t obtain a hs out z pre post s1 l1 s2 lj rep dots msg1 msg2 cmd kw where
    k: "calls_made (project_analyse demo_env ''res'' ''git'' ''prosoda.conf'' ''qemu.conf'' False
           ''info'' None False 2) fresh = a @ calls_made demo_loop fresh @ Join hs out # z"
    and c: "calls_made demo_loop fresh = pre
             @ [Add s1 (DoProjectAnalysis demo_conf ''v2'' ''v3'' None demo_range_resdir
                  ''git/qemu/.git'' True True) None [],
                Add l1 (Loginfo msg1) None [s1],
                Add s2 (ExecuteCommand cmd) (Some kw) [s1],
                Glob (pathjoin demo_env [demo_range_resdir, ''*.dot'']),
                Add lj (Loginfo msg2) None [s2]]
             @ map (\<lambda>(h, f). Add h (LayoutGraph f) None [s2, lj]) (zip dots ?files)
             @ [Add rep (GenerateReport ''v2'' ''v3'' demo_range_resdir) None dots]
             @ post"
    and l: "length dots = length ?files"
    and e: "?files = [] \<longrightarrow>
              dependencies (job_list ?p ! rep) = []
              \<and> rep \<in> set (ready_set ?p)
              \<and> s2 \<notin> set (ready_set ?p)
              \<and> needed ?tbl [rep] = {rep}
              \<and> rep \<notin> needed ?tbl [s1]
              \<and> rep \<notin> needed ?tbl [s2]"
    by blast
  from l f have d: "dots = []" by simp
  have m1: "Add s2 (ExecuteCommand cmd) (Some kw) [s1] \<in> set (calls_made demo_loop fresh)"
    by (subst c) simp
  have m2: "Add rep (GenerateReport ''v2'' ''v3'' demo_range_resdir) None []
              \<in> set (calls_made demo_loop fresh)"
    by (subst c) (simp add: d)
  from e f have "rep \<in> set (ready_set ?p)" "s2 \<notin> set (ready_set ?p)"
    "needed ?tbl [rep] = {rep}" "rep \<notin> needed ?tbl [s1]" "rep \<notin> needed ?tbl [s2]"
    by blast+
  with demo_accepted demo_ranges i rr f k m1 m2 show ?thesis by blast
qed

subsection \<open>Claim C9\<close>

text \<open>
  Claim C9. With \<^verbatim>\<open>no_report\<close> true, a run that the batch system accepts submits for each
  revision range exactly three jobs, one after the other: the commit-analysis job, one log
  job and the cluster-detection job, the last two depending on the first. No
  \<^verbatim>\<open>layout_graph\<close> or \<^verbatim>\<open>generate_report\<close> job is submitted, and the join waits for the
  handles of the cluster-detection jobs only.
\<close>

theorem C9_no_report_three_jobs_per_range:
  fixes E resdir gitdir prosoda_conf project_conf loglevel logfile recreate n_jobs st0
    s project_id dbm ids
  defines "calls \<equiv> calls_made (project_analyse E resdir gitdir prosoda_conf project_conf
                        True loglevel logfile recreate n_jobs) st0"
  defines "conf \<equiv> Configuration_load E prosoda_conf project_conf"
  defines "repo \<equiv> pathjoin E [gitdir, conf_repo conf, ''.git'']"
  defines "project_resdir \<equiv> pathjoin E [resdir, conf_project conf, conf_tagging conf]"
  defines "exe \<equiv> resource_filename E name_of_module ''R/cluster/persons.r''"
  defines "b \<equiv> length (job_list (pool st0))"
  assumes accepted:
    "fst (project_analyse E resdir gitdir prosoda_conf project_conf True loglevel logfile
            recreate n_jobs st0) \<noteq> Inl ConfigurationError"
  assumes ranges: "fst (project_setup E conf recreate s) = Inr (project_id, dbm, ids)"
  shows "\<exists>blocks out.
           filter is_add calls = concat blocks
         \<and> length blocks = length ids
         \<and> (\<forall>k<length ids. \<exists>start_rev end_rev rc_rev msg cmd kw.
               get_release_range dbm project_id (ids ! k) = (start_rev, end_rev, rc_rev)
               \<and> blocks ! k =
                   [Add (b + 3 * k)
                      (DoProjectAnalysis conf start_rev end_rev rc_rev
                         (pathjoin E [project_resdir, start_rev @ ''-'' @ end_rev]) repo True True)
                      None [],
                    Add (b + 3 * k + 1) (Loginfo msg) None [b + 3 * k],
                    Add (b + 3 * k + 2) (ExecuteCommand (exe # cmd)) (Some kw) [b + 3 * k]]
               \<and> last cmd = str_int (ids ! k))
         \<and> Join (map (\<lambda>k. b + 3 * k + 2) [0..<length ids]) out \<in> set calls
         \<and> (\<forall>h w kw ds. Add h w kw ds \<in> set calls \<longrightarrow>
               (case w of LayoutGraph f \<Rightarrow> False | GenerateReport x y z \<Rightarrow> False | _ \<Rightarrow> True))"
proof -
  let ?R = "\<lambda>k. range_events E conf project_id dbm project_resdir repo prosoda_conf project_conf
                  True loglevel logfile (b + 3 * k) k (ids ! k)"
  let ?blocks = "map ?R [0..<length ids]"
  let ?out = "fst (join_result E resdir gitdir prosoda_conf project_conf True loglevel
                    logfile recreate n_jobs (pool st0))"
  from ranges have r: "release_ranges E conf recreate = (project_id, dbm, ids)"
    by (simp add: project_setup_result)
  have sub: "submit_events E resdir gitdir prosoda_conf project_conf True loglevel logfile
               recreate b = concat ?blocks"
    using r unfolding conf_def repo_def project_resdir_def
    by (simp add: submit_events_def Let_def loop_events_no_report)
  have jh: "joined_handles E resdir prosoda_conf project_conf True recreate b
            = map (\<lambda>k. b + 3 * k + 2) [0..<length ids]"
    using r unfolding conf_def project_resdir_def
    by (simp add: joined_handles_def Let_def loop_handles_no_report)
  have c: "calls = setup_events E prosoda_conf project_conf n_jobs @ concat ?blocks
             @ [Join (map (\<lambda>k. b + 3 * k + 2) [0..<length ids]) ?out]
             @ final_events E resdir prosoda_conf project_conf loglevel logfile"
    unfolding calls_def calls_accepted[OF accepted] b_def[symmetric] sub jh by simp
  have 1: "filter is_add calls = concat ?blocks"
    unfolding c
    by (simp add: filter_is_add_setup_events filter_is_add_final_events
        filter_is_add_concat_no_report)
  have 2: "length ?blocks = length ids" by simp
  have 3: "\<exists>start_rev end_rev rc_rev msg cmd kw.
               get_release_range dbm project_id (ids ! k) = (start_rev, end_rev, rc_rev)
               \<and> ?blocks ! k =
                   [Add (b + 3 * k)
                      (DoProjectAnalysis conf start_rev end_rev rc_rev
                         (pathjoin E [project_resdir, start_rev @ ''-'' @ end_rev]) repo True True)
                      None [],
                    Add (b + 3 * k + 1) (Loginfo msg) None [b + 3 * k],
                    Add (b + 3 * k + 2) (ExecuteCommand (exe # cmd)) (Some kw) [b + 3 * k]]
               \<and> last cmd = str_int (ids ! k)"
    if k: "k < length ids" for k
  proof -
    obtain start_rev end_rev rc_rev where
      g: "get_release_range dbm project_id (ids ! k) = (start_rev, end_rev, rc_rev)"
      by (cases "get_release_range dbm project_id (ids ! k)") auto
    let ?cmd = "[''--loglevel'', loglevel] @ logfile_args logfile (''.R.r'' @ str_nat k)
                   @ [''-c'', prosoda_conf, ''-p'', project_conf,
                      pathjoin E [project_resdir, start_rev @ ''-'' @ end_rev],
                      str_int (ids ! k)]"
    have "?blocks ! k = ?R k" using k by simp
    also have "\<dots> = [Add (b + 3 * k)
                      (DoProjectAnalysis conf start_rev end_rev rc_rev
                         (pathjoin E [project_resdir, start_rev @ ''-'' @ end_rev]) repo True True)
                      None [],
                    Add (b + 3 * k + 1) (Loginfo (''  -> Analysing revision range '' @ start_rev
                      @ ''..'' @ end_rev @ '': Detecting clusters...'')) None [b + 3 * k],
                    Add (b + 3 * k + 2) (ExecuteCommand (exe # ?cmd))
                      (Some [(''direct_io'', KBool True), (''cwd'', KStr (fst (pathsplit E exe)))])
                      [b + 3 * k]]"
      by (simp add: range_events_no_report[OF g] exe_def)
    finally have "?blocks ! k = [Add (b + 3 * k)
                      (DoProjectAnalysis conf start_rev end_rev rc_rev
                         (pathjoin E [project_resdir, start_rev @ ''-'' @ end_rev]) repo True True)
                      None [],
                    Add (b + 3 * k + 1) (Loginfo (''  -> Analysing revision range '' @ start_rev
                      @ ''..'' @ end_rev @ '': Detecting clusters...'')) None [b + 3 * k],
                    Add (b + 3 * k + 2) (ExecuteCommand (exe # ?cmd))
                      (Some [(''direct_io'', KBool True), (''cwd'', KStr (fst (pathsplit E exe)))])
                      [b + 3 * k]]" .
    moreover have "last ?cmd = str_int (ids ! k)" by simp
    ultimately show ?thesis using g by blast
  qed
  have 4: "Join (map (\<lambda>k. b + 3 * k + 2) [0..<length ids]) ?out \<in> set calls"
    unfolding c by simp
  have 5: "case w of LayoutGraph f \<Rightarrow> False | GenerateReport x y z \<Rightarrow> False | _ \<Rightarrow> True"
    if "Add h w kw ds \<in> set calls" for h w kw ds
  proof -
    from that have "Add h w kw ds \<in> set (filter is_add calls)" by simp
    then obtain k where k: "k < length ids" "Add h w kw ds \<in> set (?blocks ! k)"
      unfolding 1 by (auto simp del: upt_Suc)
    from 3[OF k(1)] k(2) show ?thesis by auto
  qed
  from 1 2 3 4 5 show ?thesis by blast
qed

text \<open>
  The example project without reports: the second range submits the jobs 3, 4 and 5, and
  the join waits for the cluster jobs 2 and 5.
\<close>

theorem C9_witness:
  "fst (project_analyse demo_env ''res'' ''git'' ''prosoda.conf'' ''qemu.conf'' True ''info''
          (Some ''log'') False 2 fresh) \<noteq> Inl ConfigurationError
   \<and> fst (project_setup demo_env (Configuration_load demo_env ''prosoda.conf'' ''qemu.conf'')
            False fresh) = Inr (1, demo_dbm, [1, 2])
   \<and> (\<exists>blocks out msg cmd kw.
         filter is_add (calls_made (project_analyse demo_env ''res'' ''git'' ''prosoda.conf''
           ''qemu.conf'' True ''info'' (Some ''log'') False 2) fresh) = concat blocks
       \<and> length blocks = 2
       \<and> blocks ! 1 =
           [Add 3 (DoProjectAnalysis demo_conf ''v2'' ''v3'' None ''res/qemu/tag/v2-v3''
              ''git/qemu/.git'' True True) None [],
            Add 4 (Loginfo msg) None [3],
            Add 5 (ExecuteCommand (''/pkg/R/cluster/persons.r'' # cmd)) (Some kw) [3]]
       \<and> last cmd = ''2''
       \<and> Join [2, 5] out
           \<in> set (calls_made (project_analyse demo_env ''res'' ''git'' ''prosoda.conf''
                  ''qemu.conf'' True ''info'' (Some ''log'') False 2) fresh))"
proof -
  let ?calls = "calls_made (project_analyse demo_env ''res'' ''git'' ''prosoda.conf''
                  ''qemu.conf'' True ''info'' (Some ''log'') False 2) fresh"
  have a: "fst (project_analyse demo_env ''res'' ''git'' ''prosoda.conf'' ''qemu.conf'' True
             ''info'' (Some ''log'') False 2 fresh) \<noteq> Inl ConfigurationError"
    by (simp add: project_analyse_result_cases fresh_def dispatch_started_def)
  from C9_no_report_three_jobs_per_range[OF a demo_ranges]
  obtain blocks out where
    1: "filter is_add ?calls = concat blocks"
    and 2: "length blocks = length [1, 2 :: int]"
    and 3: "\<forall>k<length [1, 2 :: int]. \<exists>start_rev end_rev rc_rev msg cmd kw.
               get_release_range demo_dbm 1 ([1, 2] ! k) = (start_rev, end_rev, rc_rev)
               \<and> blocks ! k =
                   [Add (length (job_list (pool fresh)) + 3 * k)
                      (DoProjectAnalysis (Configuration_load demo_env ''prosoda.conf'' ''qemu.conf'')
                         start_rev end_rev rc_rev
                         (pathjoin demo_env
                            [pathjoin demo_env [''res'',
                               conf_project (Configuration_load demo_env ''prosoda.conf'' ''qemu.conf''),
                               conf_tagging (Configuration_load demo_env ''prosoda.conf'' ''qemu.conf'')],
                             start_rev @ ''-'' @ end_rev])
                         (pathjoin demo_env [''git'',
                            conf_repo (Configuration_load demo_env ''prosoda.conf'' ''qemu.conf''),
                            ''.git'']) True True)
                      None [],
                    Add (length (job_list (pool fresh)) + 3 * k + 1) (Loginfo msg) None
                      [length (job_list (pool fresh)) + 3 * k],
                    Add (length (job_list (pool fresh)) + 3 * k + 2)
                      (ExecuteCommand (resource_filename demo_env name_of_module
                         ''R/cluster/persons.r'' # cmd)) (Some kw)
                      [length (job_list (pool fresh)) + 3 * k]]
               \<and> last cmd = str_int ([1, 2] ! k)"
    and 4: "Join (map (\<lambda>k. length (job_list (pool fresh)) + 3 * k + 2) [0..<length [1, 2 :: int]])
              out \<in> set ?calls"
    by blast
  have "(1 :: nat) < length [1, 2 :: int]" by simp
  with 3 obtain start_rev end_rev rc_rev msg cmd kw where
    g: "get_release_range demo_dbm 1 ([1, 2] ! 1) = (start_rev, end_rev, rc_rev)"
    and bl: "blocks ! 1 =
                   [Add (length (job_list (pool fresh)) + 3 * 1)
                      (DoProjectAnalysis (Configuration_load demo_env ''prosoda.conf'' ''qemu.conf'')
                         start_rev end_rev rc_rev
                         (pathjoin demo_env
                            [pathjoin demo_env [''res'',
                               conf_project (Configuration_load demo_env ''prosoda.conf'' ''qemu.conf''),
                               conf_tagging (Configuration_load demo_env ''prosoda.conf'' ''qemu.conf'')],
                             start_rev @ ''-'' @ end_rev])
                         (pathjoin demo_env [''git'',
                            conf_repo (Configuration_load demo_env ''prosoda.conf'' ''qemu.conf''),
                            ''.git'']) True True)
                      None [],
                    Add (length (job_list (pool fresh)) + 3 * 1 + 1) (Loginfo msg) None
                      [length (job_list (pool fresh)) + 3 * 1],
                    Add (length (job_list (pool fresh)) + 3 * 1 + 2)
                      (ExecuteCommand (resource_filename demo_env name_of_module
                         ''R/cluster/persons.r'' # cmd)) (Some kw)
                      [length (job_list (pool fresh)) + 3 * 1]]"
    and l: "last cmd = str_int ([1, 2] ! 1)"
    by blast
  from g have se: "start_rev = ''v2''" "end_rev = ''v3''" "rc_rev = None"
    by (simp_all add: demo_dbm_def)
  from bl have bl': "blocks ! 1 =
           [Add 3 (DoProjectAnalysis demo_conf ''v2'' ''v3'' None ''res/qemu/tag/v2-v3''
              ''git/qemu/.git'' True True) None [],
            Add 4 (Loginfo msg) None [3],
            Add 5 (ExecuteCommand (''/pkg/R/cluster/persons.r'' # cmd)) (Some kw) [3]]"
    by (simp add: se demo_env_def demo_conf_def fresh_def name_of_module_def)
  from l have l': "last cmd = ''2''"
    by (simp add: str_int_def str_nat.simps digit_char_def)
  from 2 have len2: "length blocks = 2" by simp
  from 4 have j25: "Join [2, 5] out \<in> set ?calls"
    by (simp add: fresh_def upt_conv_Cons eval_nat_numeral del: upt_Suc)
  from a demo_ranges 1 len2 bl' l' j25 show ?thesis by blast
qed

subsection \<open>Claim C10\<close>

text \<open>
  Claim C10, as amended. \<^verbatim>\<open>project_setup\<close> always returns. For a configuration with
  \<open>n \<ge> 1\<close> revisions it returns exactly \<open>n - 1\<close> range ids and for one with no revision
  it returns the empty list; the \<open>i\<close>-th range id is the id of the release range between
  the revisions \<open>i\<close> and \<open>i + 1\<close>.
\<close>

theorem C10_range_ids_of_consecutive_revisions:
  "\<exists>project_id dbm ids.
      fst (project_setup E conf recreate s) = Inr (project_id, dbm, ids)
      \<and> (conf_revisions conf = [] \<longrightarrow> ids = [])
      \<and> (conf_revisions conf \<noteq> [] \<longrightarrow> int (length ids) = int (length (conf_revisions conf)) - 1)
      \<and> (\<forall>i<length ids.
            ids ! i = getReleaseRangeID dbm project_id
                        (getRevisionID dbm project_id (conf_revisions conf ! i),
                         getRevisionID dbm project_id (conf_revisions conf ! (i + 1))))"
proof -
  obtain project_id dbm ids where r: "release_ranges E conf recreate = (project_id, dbm, ids)"
    by (cases "release_ranges E conf recreate") auto
  let ?revs = "conf_revisions conf"
  from r have ids: "ids = map (\<lambda>(start_rev, end_rev).
                 getReleaseRangeID dbm project_id
                   (getRevisionID dbm project_id start_rev, getRevisionID dbm project_id end_rev))
              (zip ?revs (drop 1 ?revs))"
    by (auto simp add: release_ranges_def Let_def)
  have len: "length ids = length ?revs - 1"
    unfolding ids by simp
  have "ids ! i = getReleaseRangeID dbm project_id
                    (getRevisionID dbm project_id (?revs ! i),
                     getRevisionID dbm project_id (?revs ! (i + 1)))"
    if "i < length ids" for i
    using that len unfolding ids by simp
  moreover have "?revs = [] \<longrightarrow> ids = []"
    using len by auto
  moreover have "?revs \<noteq> [] \<longrightarrow> int (length ids) = int (length ?revs) - 1"
    using len by (cases ?revs) simp_all
  ultimately show ?thesis
    using r by (auto simp add: project_setup_result)
qed

text \<open>Three revisions give two ranges; the second one lies between the last two revisions.\<close>

theorem C10_witness:
  "\<exists>project_id dbm ids.
      fst (project_setup demo_env demo_conf False fresh) = Inr (project_id, dbm, ids)
      \<and> int (length ids) = 3 - 1
      \<and> ids ! 1 = getReleaseRangeID dbm project_id
                     (getRevisionID dbm project_id ''v2'', getRevisionID dbm project_id ''v3'')"
proof -
  from C10_range_ids_of_consecutive_revisions[of demo_env demo_conf False fresh]
  obtain project_id dbm ids where
    a: "fst (project_setup demo_env demo_conf False fresh) = Inr (project_id, dbm, ids)"
    and b: "conf_revisions demo_conf \<noteq> [] \<longrightarrow>
              int (length ids) = int (length (conf_revisions demo_conf)) - 1"
    and c: "\<forall>i<length ids.
            ids ! i = getReleaseRangeID dbm project_id
                        (getRevisionID dbm project_id (conf_revisions demo_conf ! i),
                         getRevisionID dbm project_id (conf_revisions demo_conf ! (i + 1)))"
    by blast
  from b have l: "int (length ids) = 3 - 1" by (simp add: demo_conf_def)
  then have "1 < length ids" by simp
  with c have "ids ! 1 = getReleaseRangeID dbm project_id
                        (getRevisionID dbm project_id (conf_revisions demo_conf ! 1),
                         getRevisionID dbm project_id (conf_revisions demo_conf ! (1 + 1)))"
    by blast
  then have "ids ! 1 = getReleaseRangeID dbm project_id
                     (getRevisionID dbm project_id ''v2'', getRevisionID dbm project_id ''v3'')"
    by (simp add: demo_conf_def)
  with a l show ?thesis by blast
qed

text \<open>
  The claim as stated fails for a configuration with no revision: \<^verbatim>\<open>zip(revs, revs[1:])\<close>
  is empty, so the list returned has length 0 and not \<open>0 - 1\<close>.
\<close>

theorem C10_counterexample:
  "fst (project_setup demo_env (demo_conf\<lparr>conf_revisions := []\<rparr>) False fresh)
     = Inr (1, demo_dbm, [])
   \<and> int (length ([] :: int list)) \<noteq> int (length (conf_revisions (demo_conf\<lparr>conf_revisions := []\<rparr>))) - 1"
  by (simp add: project_setup_result release_ranges_def demo_env_def demo_conf_def
      demo_dbm_def)

end
